theory Spec2Isabelle
  imports Complex_Main
begin

section \<open>Python values and library functions\<close>

text \<open>
  The harness \<^verbatim>\<open>scripts/ha_test_harness.py\<close> turns one command line into a sequence of
  calls to the Home Assistant REST API. The model keeps the order of the source: every
  function of the script is a function of the same name here, every \<^verbatim>\<open>raise\<close> and
  \<^verbatim>\<open>sys.exit\<close> is an exception value, and every call of \<^verbatim>\<open>urlopen\<close> is appended to
  a log of issued requests.

  A Python float is either a finite number (every finite double is a rational; the zero
  among them is the positive one), the negative zero, or one of the three special values
  that \<^verbatim>\<open>float("nan")\<close>, \<^verbatim>\<open>float("inf")\<close> and \<^verbatim>\<open>float("-inf")\<close> give. No claim does
  arithmetic on a float: floats are only parsed, passed on and printed.
\<close>

datatype pyfloat = Finite rat | NegZero | PosInf | NegInf | NaN

datatype pyval =
    PyNone
  | PyBool bool
  | PyInt int
  | PyFloat pyfloat
  | PyStr string
  | PyList "pyval list"
  | PyDict "(string \<times> pyval) list"

datatype exn =
    RuntimeError string
  | SystemExit nat
  | ValueError
  | TypeError
  | OverflowError
  | OSError
  | AttributeError
  | OtherError string

text \<open>
  A \<^verbatim>\<open>datetime\<close>: the date as its proleptic Gregorian ordinal (\<^verbatim>\<open>date.toordinal()\<close>,
  day 1 is 0001-01-01, the largest is 9999-12-31), the time of day in its four fields,
  the UTC offset of an aware value (\<open>None\<close> for a naive one) and the \<^verbatim>\<open>fold\<close> flag.
\<close>

record datetime =
  ordinal :: int
  hour :: int
  minute :: int
  second :: int
  microsecond :: int
  utcoffset :: "int option"
  fold :: int

record http_request =
  req_method :: string
  req_url :: string
  req_data :: "(string \<times> pyval) list option"
  req_headers :: "(string \<times> string) list"
  req_timeout :: nat

text \<open>
  What \<^verbatim>\<open>urlopen\<close> does with a request: a response that is returned (its body),
  \<^verbatim>\<open>HTTPError\<close> with the status code and the decoded error body, \<^verbatim>\<open>URLError\<close> with its
  reason, or any other exception of the transport.
\<close>

datatype response =
    HttpOk string
  | HttpError nat string
  | UrlError string
  | TransportError string

text \<open>
  The surroundings of one run: the environment variables, the clock that
  \<^verbatim>\<open>datetime.now()\<close> reads, the server (the answer to a request may depend on the
  requests issued before it), and the library functions whose results the script only
  passes on: whether \<^verbatim>\<open>urllib.request.Request(url)\<close> finds a scheme in the URL (it raises
  \<^verbatim>\<open>ValueError("unknown url type")\<close> when it finds none), \<^verbatim>\<open>float(str)\<close>,
  \<^verbatim>\<open>float(int)\<close> beyond the exactly representable range, \<^verbatim>\<open>repr\<close> of a float and of
  a container, \<^verbatim>\<open>datetime.fromisoformat\<close>,
  \<^verbatim>\<open>datetime.timestamp\<close>, \<^verbatim>\<open>json.loads\<close> of a decoded body and
  \<^verbatim>\<open>json.dumps(_, indent=2, sort_keys=True)\<close>. \<open>None\<close> stands for the exception the
  library function raises.

  \<^verbatim>\<open>datetime.timestamp\<close> returns a float, taken as the exact number it holds, or raises
  for a date and time it cannot convert: \<^verbatim>\<open>ValueError\<close> for a naive value in the year 1,
  \<^verbatim>\<open>OverflowError\<close> or \<^verbatim>\<open>OSError\<close> where the platform's conversion fails.
  \<^verbatim>\<open>json.loads\<close> returns the value, or raises \<^verbatim>\<open>ValueError\<close> for a body that is not
  JSON (or not UTF-8), or \<^verbatim>\<open>RecursionError\<close>, a \<^verbatim>\<open>RuntimeError\<close>, for a body nested
  too deeply.
\<close>

datatype time_result = Seconds rat | TimeValueError | TimeOverflowError | TimeOSError

datatype json_result = Json pyval | JsonValueError | JsonRecursionError string

record env =
  environ :: "string \<Rightarrow> string option"
  now :: datetime
  urlopen :: "http_request list \<Rightarrow> http_request \<Rightarrow> response"
  url_type_known :: "string \<Rightarrow> bool"
  float_of_str :: "string \<Rightarrow> pyfloat option"
  float_of_big_int :: "int \<Rightarrow> pyfloat option"
  float_repr :: "pyfloat \<Rightarrow> string"
  container_repr :: "pyval \<Rightarrow> string"
  fromisoformat :: "string \<Rightarrow> datetime option"
  timestamp :: "datetime \<Rightarrow> time_result"
  json_loads :: "string \<Rightarrow> json_result"
  json_dumps :: "pyval \<Rightarrow> string"

subsection \<open>Strings\<close>

definition digit :: "nat \<Rightarrow> char" where
  "digit n = char_of (48 + n)"

function show_nat :: "nat \<Rightarrow> string" where
  "show_nat n = (if n < 10 then [digit n] else show_nat (n div 10) @ [digit (n mod 10)])"
  by pat_completeness auto
termination
  by (relation "measure (\<lambda>n. n)") auto

declare show_nat.simps [simp del]

definition show_int :: "int \<Rightarrow> string" where
  "show_int i = (if i < 0 then CHR ''-'' # show_nat (nat (- i)) else show_nat (nat i))"

text \<open>\<^verbatim>\<open>s.rstrip("/")\<close>: every trailing slash is removed.\<close>

definition rstrip_slash :: "string \<Rightarrow> string" where
  "rstrip_slash s = rev (dropWhile (\<lambda>c. c = CHR ''/'') (rev s))"

text \<open>
  \<^verbatim>\<open>s.lower()\<close> on the ASCII letters. The script compares the result with
  \<^verbatim>\<open>"on"\<close>, \<^verbatim>\<open>"true"\<close> and \<^verbatim>\<open>"1"\<close> only, and no character outside ASCII lowers to
  one of their letters.
\<close>

definition lower_char :: "char \<Rightarrow> char" where
  "lower_char c =
     (let n = (of_char c :: nat) in if 65 \<le> n \<and> n \<le> 90 then char_of (n + 32) else c)"

definition lower :: "string \<Rightarrow> string" where
  "lower s = map lower_char s"

text \<open>\<^verbatim>\<open>str(v)\<close>, \<^verbatim>\<open>float(v)\<close> and \<^verbatim>\<open>int(x)\<close> of a float (truncation towards zero).\<close>

definition py_str :: "env \<Rightarrow> pyval \<Rightarrow> string" where
  "py_str e v =
     (case v of
        PyStr s \<Rightarrow> s
      | PyNone \<Rightarrow> ''None''
      | PyBool b \<Rightarrow> (if b then ''True'' else ''False'')
      | PyInt n \<Rightarrow> show_int n
      | PyFloat x \<Rightarrow> float_repr e x
      | PyList xs \<Rightarrow> container_repr e v
      | PyDict d \<Rightarrow> container_repr e v)"

definition float_of_int :: "env \<Rightarrow> int \<Rightarrow> exn + pyfloat" where
  "float_of_int e n =
     (if abs n \<le> 2 ^ 53 then Inr (Finite (of_int n))
      else (case float_of_big_int e n of None \<Rightarrow> Inl OverflowError | Some x \<Rightarrow> Inr x))"

definition py_float :: "env \<Rightarrow> pyval \<Rightarrow> exn + pyfloat" where
  "py_float e v =
     (case v of
        PyFloat x \<Rightarrow> Inr x
      | PyInt n \<Rightarrow> float_of_int e n
      | PyBool b \<Rightarrow> Inr (Finite (if b then 1 else 0))
      | PyStr s \<Rightarrow> (case float_of_str e s of None \<Rightarrow> Inl ValueError | Some x \<Rightarrow> Inr x)
      | PyNone \<Rightarrow> Inl TypeError
      | PyList xs \<Rightarrow> Inl TypeError
      | PyDict d \<Rightarrow> Inl TypeError)"

definition py_int :: "rat \<Rightarrow> int" where
  "py_int x = (if 0 \<le> x then \<lfloor>x\<rfloor> else \<lceil>x\<rceil>)"

section \<open>Effects\<close>

text \<open>
  The state a run changes: the requests handed to \<^verbatim>\<open>urlopen\<close>, in order, and the lines
  printed to standard output and to standard error. An action returns a value or the
  exception it raised, and the state at that moment.
\<close>

record world =
  requests :: "http_request list"
  stdout :: "string list"
  stderr :: "string list"

type_synonym 'a io = "world \<Rightarrow> (exn + 'a) \<times> world"

definition world0 :: world where
  "world0 = \<lparr>requests = [], stdout = [], stderr = []\<rparr>"

definition io_return :: "'a \<Rightarrow> 'a io" where
  "io_return x = (\<lambda>w. (Inr x, w))"

definition io_raise :: "exn \<Rightarrow> 'a io" where
  "io_raise e = (\<lambda>w. (Inl e, w))"

definition io_bind :: "'a io \<Rightarrow> ('a \<Rightarrow> 'b io) \<Rightarrow> 'b io" where
  "io_bind m f = (\<lambda>w. case m w of (Inl e, w') \<Rightarrow> (Inl e, w') | (Inr x, w') \<Rightarrow> f x w')"

definition io_then :: "'a io \<Rightarrow> 'b io \<Rightarrow> 'b io" where
  "io_then m n = io_bind m (\<lambda>_. n)"

definition io_lift :: "exn + 'a \<Rightarrow> 'a io" where
  "io_lift r = (\<lambda>w. (r, w))"

definition print_out :: "string \<Rightarrow> unit io" where
  "print_out s = (\<lambda>w. (Inr (), w\<lparr>stdout := stdout w @ [s]\<rparr>))"

definition print_err :: "string \<Rightarrow> unit io" where
  "print_err s = (\<lambda>w. (Inr (), w\<lparr>stderr := stderr w @ [s]\<rparr>))"

text \<open>\<^verbatim>\<open>urlopen(req, timeout=30)\<close>: the request is issued and the server answers.\<close>

definition do_urlopen :: "env \<Rightarrow> http_request \<Rightarrow> response io" where
  "do_urlopen e req = (\<lambda>w. (Inr (urlopen e (requests w) req), w\<lparr>requests := requests w @ [req]\<rparr>))"

section \<open>The script\<close>

record args =
  base_url :: "string option"
  token :: "string option"
  energy_sensor :: string
  energy_write_entity :: "string option"
  status_entity :: string
  lifetime_helper :: string
  cycle_start_helper :: string
  daily_active_helper :: string
  durations_helper :: string
  last_processed_helper :: string
  active_state :: string
  inactive_state :: string
  energy_wh :: pyval
  duration_sec :: "int option"
  start_iso :: "string option"
  init :: bool

text \<open>Truth value of an optional string: \<^verbatim>\<open>None\<close> and \<^verbatim>\<open>""\<close> are false.\<close>

definition truthy :: "string option \<Rightarrow> bool" where
  "truthy v = (case v of None \<Rightarrow> False | Some s \<Rightarrow> s \<noteq> [])"

definition require :: "string option \<Rightarrow> string \<Rightarrow> string io" where
  "require v label =
     (case v of
        Some s \<Rightarrow>
          (if s \<noteq> [] then io_return s
           else io_then (print_err (''Missing required value: '' @ label)) (io_raise (SystemExit 2)))
      | None \<Rightarrow> io_then (print_err (''Missing required value: '' @ label)) (io_raise (SystemExit 2)))"

definition get_base_url :: "args \<Rightarrow> string io" where
  "get_base_url a = require (base_url a) ''HA_BASE_URL or --base-url''"

definition get_token :: "args \<Rightarrow> string io" where
  "get_token a = require (token a) ''HA_TOKEN or --token''"

definition mk_request :: "string \<Rightarrow> string \<Rightarrow> (string \<times> pyval) list option \<Rightarrow> string \<Rightarrow> http_request" where
  "mk_request method url payload tok =
     \<lparr>req_method = method, req_url = url, req_data = payload,
      req_headers = [(''Authorization'', ''Bearer '' @ tok), (''Content-Type'', ''application/json'')],
      req_timeout = 30\<rparr>"

definition handle_response :: "env \<Rightarrow> string \<Rightarrow> string \<Rightarrow> response \<Rightarrow> pyval io" where
  "handle_response e method path r =
     (case r of
        HttpOk body \<Rightarrow>
          (if body = [] then io_return PyNone
           else (case json_loads e body of
                   Json v \<Rightarrow> io_return v
                 | JsonValueError \<Rightarrow> io_raise ValueError
                 | JsonRecursionError msg \<Rightarrow> io_raise (RuntimeError msg)))
      | HttpError code detail \<Rightarrow>
          io_raise (RuntimeError (method @ '' '' @ path @ '' failed: '' @ show_nat code @ '' '' @ detail))
      | UrlError reason \<Rightarrow>
          io_raise (RuntimeError (method @ '' '' @ path @ '' failed: '' @ reason))
      | TransportError name \<Rightarrow> io_raise (OtherError name))"

definition request :: "env \<Rightarrow> args \<Rightarrow> string \<Rightarrow> string \<Rightarrow> (string \<times> pyval) list option \<Rightarrow> pyval io" where
  "request e a method path payload =
     io_bind (get_base_url a) (\<lambda>b.
       let url = rstrip_slash b @ path in
       if \<not> url_type_known e url then io_raise ValueError
       else io_bind (get_token a) (\<lambda>tok.
         io_bind (do_urlopen e (mk_request method url payload tok)) (handle_response e method path)))"

definition domain :: "string \<Rightarrow> string" where
  "domain entity_id = takeWhile (\<lambda>c. c \<noteq> CHR ''.'') entity_id"

definition call_service :: "env \<Rightarrow> args \<Rightarrow> string \<Rightarrow> string \<Rightarrow> (string \<times> pyval) list \<Rightarrow> pyval io" where
  "call_service e a dmn service data =
     request e a ''POST'' (''/api/services/'' @ dmn @ ''/'' @ service) (Some data)"

definition set_state :: "env \<Rightarrow> args \<Rightarrow> string \<Rightarrow> pyval \<Rightarrow> (string \<times> pyval) list option \<Rightarrow> pyval io" where
  "set_state e a entity_id state attributes =
     request e a ''POST'' (''/api/states/'' @ entity_id)
       (Some ((''state'', PyStr (py_str e state)) #
          (case attributes of
             None \<Rightarrow> []
           | Some d \<Rightarrow> (if d \<noteq> [] then [(''attributes'', PyDict d)] else []))))"

definition set_input_number :: "env \<Rightarrow> args \<Rightarrow> string \<Rightarrow> pyval \<Rightarrow> pyval io" where
  "set_input_number e a entity_id v =
     call_service e a ''input_number'' ''set_value'' [(''entity_id'', PyStr entity_id), (''value'', v)]"

definition set_input_text :: "env \<Rightarrow> args \<Rightarrow> string \<Rightarrow> string \<Rightarrow> pyval io" where
  "set_input_text e a entity_id v =
     call_service e a ''input_text'' ''set_value'' [(''entity_id'', PyStr entity_id), (''value'', PyStr v)]"

definition set_input_select :: "env \<Rightarrow> args \<Rightarrow> string \<Rightarrow> string \<Rightarrow> pyval io" where
  "set_input_select e a entity_id v =
     call_service e a ''input_select'' ''select_option''
       [(''entity_id'', PyStr entity_id), (''option'', PyStr v)]"

definition set_input_boolean :: "env \<Rightarrow> args \<Rightarrow> string \<Rightarrow> string \<Rightarrow> pyval io" where
  "set_input_boolean e a entity_id v =
     (let service = (if lower v \<in> {''on'', ''true'', ''1''} then ''turn_on'' else ''turn_off'')
      in call_service e a ''input_boolean'' service [(''entity_id'', PyStr entity_id)])"

definition set_by_domain :: "env \<Rightarrow> args \<Rightarrow> string \<Rightarrow> pyval \<Rightarrow> pyval io" where
  "set_by_domain e a entity_id v =
     (let dmn = domain entity_id in
      if dmn = ''input_number'' then
        io_bind (io_lift (py_float e v)) (\<lambda>x. set_input_number e a entity_id (PyFloat x))
      else if dmn = ''input_text'' then set_input_text e a entity_id (py_str e v)
      else if dmn = ''input_select'' then set_input_select e a entity_id (py_str e v)
      else if dmn = ''input_boolean'' then set_input_boolean e a entity_id (py_str e v)
      else set_state e a entity_id v None)"

definition get_state :: "env \<Rightarrow> args \<Rightarrow> string \<Rightarrow> pyval io" where
  "get_state e a entity_id = request e a ''GET'' (''/api/states/'' @ entity_id) None"

subsection \<open>Time\<close>

text \<open>
  \<^verbatim>\<open>dt - timedelta(seconds=n)\<close> for an integer \<open>n\<close>. Python adds the negated
  difference to the date and time counted in days and seconds, splits the sum again with
  \<^verbatim>\<open>divmod\<close>, and raises \<^verbatim>\<open>OverflowError\<close> when the day leaves the range of dates (a
  \<^verbatim>\<open>timedelta\<close> that is itself out of range raises the same exception, and only for
  a result outside the dates). The microsecond and the time zone stay, \<^verbatim>\<open>fold\<close> is
  reset.
\<close>

definition max_ordinal :: int where
  "max_ordinal = 3652059"

definition sub_seconds :: "datetime \<Rightarrow> int \<Rightarrow> exn + datetime" where
  "sub_seconds dt n =
     (let total = ((ordinal dt * 24 + hour dt) * 60 + minute dt) * 60 + second dt - n;
          days = total div 86400;
          rest = total mod 86400
      in if 0 < days \<and> days \<le> max_ordinal
         then Inr (dt\<lparr>ordinal := days, hour := rest div 3600, minute := rest mod 3600 div 60,
                     second := rest mod 60, fold := 0\<rparr>)
         else Inl OverflowError)"

definition parse_start_iso :: "env \<Rightarrow> string \<Rightarrow> datetime io" where
  "parse_start_iso e v =
     (case fromisoformat e v of
        Some dt \<Rightarrow> io_return dt
      | None \<Rightarrow> io_raise (RuntimeError (''Invalid --start-iso value: '' @ v)))"

definition local_midnight :: "datetime \<Rightarrow> datetime" where
  "local_midnight n = n\<lparr>hour := 0, minute := 0, second := 0, microsecond := 0\<rparr>"

definition timestamp_int :: "env \<Rightarrow> datetime \<Rightarrow> exn + int" where
  "timestamp_int e dt =
     (case timestamp e dt of
        Seconds x \<Rightarrow> Inr (py_int x)
      | TimeValueError \<Rightarrow> Inl ValueError
      | TimeOverflowError \<Rightarrow> Inl OverflowError
      | TimeOSError \<Rightarrow> Inl OSError)"

text \<open>
  The call that \<^verbatim>\<open>_init_helpers\<close>, \<^verbatim>\<open>cmd_end\<close>, \<^verbatim>\<open>cmd_split\<close> and \<^verbatim>\<open>cmd_scenario\<close>
  each write out: \<^verbatim>\<open>_call_service(args, "input_datetime", "set_datetime", {"entity_id":
  args.cycle_start_helper, "timestamp": ts})\<close>.
\<close>

definition set_cycle_start :: "env \<Rightarrow> args \<Rightarrow> int \<Rightarrow> pyval io" where
  "set_cycle_start e a ts =
     call_service e a ''input_datetime'' ''set_datetime''
       [(''entity_id'', PyStr (cycle_start_helper a)), (''timestamp'', PyInt ts)]"

subsection \<open>Subcommands\<close>

text \<open>
  \<^verbatim>\<open>_set_by_domain(args, args.energy_write_entity, v)\<close>: the attribute is a string once
  \<^verbatim>\<open>main\<close> has filled it in; on \<^verbatim>\<open>None\<close> the call of \<^verbatim>\<open>split\<close> in \<^verbatim>\<open>_domain\<close> raises
  \<^verbatim>\<open>AttributeError\<close>.
\<close>

definition set_energy :: "env \<Rightarrow> args \<Rightarrow> pyval \<Rightarrow> pyval io" where
  "set_energy e a v =
     (case energy_write_entity a of
        None \<Rightarrow> io_raise AttributeError
      | Some entity_id \<Rightarrow> set_by_domain e a entity_id v)"

definition init_helpers :: "env \<Rightarrow> args \<Rightarrow> pyval \<Rightarrow> unit io" where
  "init_helpers e a wh =
     io_then (set_input_number e a (lifetime_helper a) (PyInt 0))
    (io_then (set_input_number e a (daily_active_helper a) (PyInt 0))
    (io_then (set_input_text e a (durations_helper a) ''[]'')
    (io_then (set_input_text e a (last_processed_helper a) [])
    (io_then (set_cycle_start e a 0)
    (io_then (set_by_domain e a (status_entity a) (PyStr (inactive_state a)))
    (if wh \<noteq> PyNone then io_then (set_energy e a wh) (io_return ()) else io_return ()))))))"

definition cmd_init :: "env \<Rightarrow> args \<Rightarrow> unit io" where
  "cmd_init e a =
     io_then (init_helpers e a (energy_wh a))
       (print_out ''Initialized helpers and set status to inactive.'')"

definition cmd_start :: "env \<Rightarrow> args \<Rightarrow> unit io" where
  "cmd_start e a =
     io_then (set_by_domain e a (status_entity a) (PyStr (active_state a)))
       (print_out (''Set status to '' @ active_state a @ ''.''))"

definition cmd_end :: "env \<Rightarrow> args \<Rightarrow> unit io" where
  "cmd_end e a =
     io_then
       (case duration_sec a of
          None \<Rightarrow> io_return ()
        | Some d \<Rightarrow>
            io_bind (io_lift (sub_seconds (now e) d)) (\<lambda>start.
              io_bind (io_lift (timestamp_int e start)) (\<lambda>ts.
                io_then (set_cycle_start e a ts) (io_return ()))))
    (io_then (set_by_domain e a (status_entity a) (PyStr (inactive_state a)))
       (print_out (''Set status to '' @ inactive_state a @ ''.'')))"

definition cmd_energy :: "env \<Rightarrow> args \<Rightarrow> unit io" where
  "cmd_energy e a =
     io_then (set_energy e a (energy_wh a))
       (print_out (''Set energy to '' @ py_str e (energy_wh a) @ '' Wh.''))"

definition cmd_split :: "env \<Rightarrow> args \<Rightarrow> unit io" where
  "cmd_split e a =
     (let n = now e in
      io_bind
        (if truthy (start_iso a) then parse_start_iso e (the (start_iso a))
         else io_lift (sub_seconds (local_midnight n) (10 * 60)))
        (\<lambda>start.
           io_bind (io_lift (timestamp_int e start)) (\<lambda>ts.
           io_then (set_cycle_start e a ts)
          (io_then (set_by_domain e a (status_entity a) (PyStr (active_state a)))
          (io_then (set_energy e a (energy_wh a))
             (print_out ''Set a pre-midnight start, set status active, and updated energy.''))))))"

definition cmd_scenario :: "env \<Rightarrow> args \<Rightarrow> unit io" where
  "cmd_scenario e a =
     io_then (if init a then init_helpers e a (PyInt 0) else io_return ())
    (io_bind
        (if truthy (start_iso a) then parse_start_iso e (the (start_iso a))
         else (case duration_sec a of
                 None \<Rightarrow> io_raise TypeError
               | Some d \<Rightarrow> io_lift (sub_seconds (now e) d)))
        (\<lambda>start.
           io_bind (io_lift (timestamp_int e start)) (\<lambda>ts.
           io_then (set_cycle_start e a ts)
          (io_then (set_by_domain e a (status_entity a) (PyStr (active_state a)))
          (io_then (set_by_domain e a (status_entity a) (PyStr (inactive_state a)))
          (io_then (set_energy e a (energy_wh a))
             (print_out ''Ran scenario: start -> end -> energy update.'')))))))"

fun dump_each :: "env \<Rightarrow> args \<Rightarrow> string list \<Rightarrow> unit io" where
  "dump_each e a [] = io_return ()"
| "dump_each e a (entity_id # rest) =
     io_bind (get_state e a entity_id) (\<lambda>state.
       io_then (print_out (json_dumps e state)) (dump_each e a rest))"

definition cmd_dump :: "env \<Rightarrow> args \<Rightarrow> unit io" where
  "cmd_dump e a =
     dump_each e a
       [energy_sensor a, status_entity a, lifetime_helper a, cycle_start_helper a,
        daily_active_helper a, durations_helper a, last_processed_helper a]"

subsection \<open>The command line\<close>

text \<open>
  One invocation, as \<^verbatim>\<open>argparse\<close> reads it: the subcommand with the options of its own
  parser (an option that was not given is \<open>None\<close>; \<^verbatim>\<open>type=float\<close> and \<^verbatim>\<open>type=int\<close>
  have been applied to the ones given) and the options all subcommands share. A command
  line without a subcommand, with an option its parser does not know or with a value that
  \<^verbatim>\<open>type\<close> rejects ends in \<^verbatim>\<open>argparse\<close> itself and is not an invocation here.
\<close>

datatype command =
    Init "pyfloat option"
  | Start
  | End "int option"
  | Energy "pyfloat option"
  | Split "pyfloat option" "string option"
  | Scenario "pyfloat option" "int option" "string option" bool
  | Dump

record cli =
  subcommand :: command
  opt_base_url :: "string option"
  opt_token :: "string option"
  opt_energy_sensor :: "string option"
  opt_energy_write_entity :: "string option"
  opt_status_entity :: "string option"
  opt_lifetime_helper :: "string option"
  opt_cycle_start_helper :: "string option"
  opt_daily_active_helper :: "string option"
  opt_durations_helper :: "string option"
  opt_last_processed_helper :: "string option"
  opt_active_state :: "string option"
  opt_inactive_state :: "string option"

text \<open>The flag, else the environment variable, else the entry of \<^verbatim>\<open>DEFAULTS\<close>.\<close>

definition or_environ :: "env \<Rightarrow> string option \<Rightarrow> string \<Rightarrow> string option" where
  "or_environ e flag var = (case flag of Some v \<Rightarrow> Some v | None \<Rightarrow> environ e var)"

definition or_default :: "env \<Rightarrow> string option \<Rightarrow> string \<Rightarrow> string \<Rightarrow> string" where
  "or_default e flag var dflt =
     (case or_environ e flag var of Some v \<Rightarrow> v | None \<Rightarrow> dflt)"

definition common_args :: "env \<Rightarrow> cli \<Rightarrow> args" where
  "common_args e c =
     \<lparr>base_url = or_environ e (opt_base_url c) ''HA_BASE_URL'',
      token = or_environ e (opt_token c) ''HA_TOKEN'',
      energy_sensor =
        or_default e (opt_energy_sensor c) ''HA_ENERGY_SENSOR'' ''sensor.test_energy_yesterday'',
      energy_write_entity = or_environ e (opt_energy_write_entity c) ''HA_ENERGY_WRITE_ENTITY'',
      status_entity =
        or_default e (opt_status_entity c) ''HA_STATUS_ENTITY'' ''input_select.test_status'',
      lifetime_helper =
        or_default e (opt_lifetime_helper c) ''HA_LIFETIME_HELPER''
          ''input_number.test_lifetime_energy'',
      cycle_start_helper =
        or_default e (opt_cycle_start_helper c) ''HA_CYCLE_START_HELPER''
          ''input_datetime.test_cycle_start'',
      daily_active_helper =
        or_default e (opt_daily_active_helper c) ''HA_DAILY_ACTIVE_HELPER''
          ''input_number.test_daily_active_seconds'',
      durations_helper =
        or_default e (opt_durations_helper c) ''HA_DURATIONS_HELPER''
          ''input_text.test_cycle_durations'',
      last_processed_helper =
        or_default e (opt_last_processed_helper c) ''HA_LAST_PROCESSED_HELPER''
          ''input_text.test_last_processed_date'',
      active_state = or_default e (opt_active_state c) ''HA_ACTIVE_STATE'' ''running'',
      inactive_state = or_default e (opt_inactive_state c) ''HA_INACTIVE_STATE'' ''off'',
      energy_wh = PyNone, duration_sec = None, start_iso = None, init = False\<rparr>"

text \<open>
  \<^verbatim>\<open>parser.parse_args()\<close>: the namespace, or the message of \<^verbatim>\<open>parser.error\<close> when a
  required option is missing. \<^verbatim>\<open>init\<close> has \<^verbatim>\<open>default=0\<close> for \<^verbatim>\<open>--energy-wh\<close>,
  \<^verbatim>\<open>scenario\<close> has \<^verbatim>\<open>default=1800\<close> for \<^verbatim>\<open>--duration-sec\<close>.
\<close>

definition required_energy :: "pyfloat option \<Rightarrow> string + pyval" where
  "required_energy wh =
     (case wh of
        None \<Rightarrow> Inl ''the following arguments are required: --energy-wh''
      | Some x \<Rightarrow> Inr (PyFloat x))"

definition parse_args :: "env \<Rightarrow> cli \<Rightarrow> string + args" where
  "parse_args e c =
     (let a = common_args e c in
      case subcommand c of
        Init wh \<Rightarrow> Inr (a\<lparr>energy_wh := (case wh of None \<Rightarrow> PyInt 0 | Some x \<Rightarrow> PyFloat x)\<rparr>)
      | Start \<Rightarrow> Inr a
      | End d \<Rightarrow> Inr (a\<lparr>duration_sec := d\<rparr>)
      | Energy wh \<Rightarrow>
          (case required_energy wh of Inl msg \<Rightarrow> Inl msg | Inr v \<Rightarrow> Inr (a\<lparr>energy_wh := v\<rparr>))
      | Split wh s \<Rightarrow>
          (case required_energy wh of
             Inl msg \<Rightarrow> Inl msg
           | Inr v \<Rightarrow> Inr (a\<lparr>energy_wh := v, start_iso := s\<rparr>))
      | Scenario wh d s i \<Rightarrow>
          (case required_energy wh of
             Inl msg \<Rightarrow> Inl msg
           | Inr v \<Rightarrow>
               Inr (a\<lparr>energy_wh := v,
                       duration_sec := Some (case d of None \<Rightarrow> 1800 | Some n \<Rightarrow> n),
                       start_iso := s, init := i\<rparr>))
      | Dump \<Rightarrow> Inr a)"

definition func :: "command \<Rightarrow> env \<Rightarrow> args \<Rightarrow> unit io" where
  "func cmd =
     (case cmd of
        Init wh \<Rightarrow> cmd_init
      | Start \<Rightarrow> cmd_start
      | End d \<Rightarrow> cmd_end
      | Energy wh \<Rightarrow> cmd_energy
      | Split wh s \<Rightarrow> cmd_split
      | Scenario wh d s i \<Rightarrow> cmd_scenario
      | Dump \<Rightarrow> cmd_dump)"

definition except_RuntimeError :: "unit io \<Rightarrow> (string \<Rightarrow> unit io) \<Rightarrow> unit io" where
  "except_RuntimeError m h =
     (\<lambda>w. case m w of
            (Inl (RuntimeError msg), w') \<Rightarrow> h msg w'
          | r \<Rightarrow> r)"

text \<open>
  \<^verbatim>\<open>if not args.energy_write_entity: args.energy_write_entity = args.energy_sensor\<close>
\<close>

definition fill_energy_write_entity :: "args \<Rightarrow> args" where
  "fill_energy_write_entity a =
     (if \<not> truthy (energy_write_entity a)
      then a\<lparr>energy_write_entity := Some (energy_sensor a)\<rparr> else a)"

definition main :: "env \<Rightarrow> cli \<Rightarrow> unit io" where
  "main e c =
     (case parse_args e c of
        Inl msg \<Rightarrow> io_then (print_err msg) (io_raise (SystemExit 2))
      | Inr a \<Rightarrow>
          except_RuntimeError (func (subcommand c) e (fill_energy_write_entity a))
            (\<lambda>msg. io_then (print_err msg) (io_raise (SystemExit 1))))"

text \<open>
  How the process ends: with the status of \<^verbatim>\<open>sys.exit\<close>, with 0 when \<^verbatim>\<open>main\<close>
  returns, or with an exception that nothing caught (the interpreter prints the
  traceback and the status is 1).
\<close>

datatype outcome = Exit nat | Uncaught exn

fun exit_code :: "outcome \<Rightarrow> nat" where
  "exit_code (Exit n) = n"
| "exit_code (Uncaught ex) = 1"

definition run :: "env \<Rightarrow> cli \<Rightarrow> outcome \<times> world" where
  "run e c =
     (case main e c world0 of
        (Inr u, w) \<Rightarrow> (Exit 0, w)
      | (Inl (SystemExit n), w) \<Rightarrow> (Exit n, w)
      | (Inl ex, w) \<Rightarrow> (Uncaught ex, w))"

section \<open>Describing a run\<close>

text \<open>
  The request that \<^verbatim>\<open>_request\<close> builds from the namespace, a method, a path and a
  payload, and the two kinds of request the script makes with it, the call of a service
  and the direct overwrite of a state.
\<close>

definition api_request :: "args \<Rightarrow> string \<Rightarrow> string \<Rightarrow> (string \<times> pyval) list option \<Rightarrow> http_request" where
  "api_request a method path payload =
     mk_request method
       (rstrip_slash (case base_url a of None \<Rightarrow> [] | Some b \<Rightarrow> b) @ path) payload
       (case token a of None \<Rightarrow> [] | Some t \<Rightarrow> t)"

definition service_request :: "args \<Rightarrow> string \<Rightarrow> string \<Rightarrow> (string \<times> pyval) list \<Rightarrow> http_request" where
  "service_request a dmn service data =
     api_request a ''POST'' (''/api/services/'' @ dmn @ ''/'' @ service) (Some data)"

definition state_request :: "args \<Rightarrow> string \<Rightarrow> string \<Rightarrow> http_request" where
  "state_request a entity_id st =
     api_request a ''POST'' (''/api/states/'' @ entity_id) (Some [(''state'', PyStr st)])"

definition starts_with :: "string \<Rightarrow> string \<Rightarrow> bool" where
  "starts_with pre s = (take (length pre) s = pre)"

text \<open>
  The requests an action issues when it starts with none issued, and the five service
  calls at the head of \<^verbatim>\<open>_init_helpers\<close>.
\<close>

definition issued :: "'a io \<Rightarrow> http_request list" where
  "issued m = requests (snd (m world0))"

definition reset_requests :: "args \<Rightarrow> http_request list" where
  "reset_requests a =
     [service_request a ''input_number'' ''set_value''
        [(''entity_id'', PyStr (lifetime_helper a)), (''value'', PyInt 0)],
      service_request a ''input_number'' ''set_value''
        [(''entity_id'', PyStr (daily_active_helper a)), (''value'', PyInt 0)],
      service_request a ''input_text'' ''set_value''
        [(''entity_id'', PyStr (durations_helper a)), (''value'', PyStr ''[]'')],
      service_request a ''input_text'' ''set_value''
        [(''entity_id'', PyStr (last_processed_helper a)), (''value'', PyStr [])],
      service_request a ''input_datetime'' ''set_datetime''
        [(''entity_id'', PyStr (cycle_start_helper a)), (''timestamp'', PyInt 0)]]"

text \<open>
  The namespace that \<^verbatim>\<open>main\<close> hands to the subcommand: the parsed one, with the energy
  write target filled in.
\<close>

definition namespace :: "env \<Rightarrow> cli \<Rightarrow> args" where
  "namespace e c =
     fill_energy_write_entity (case parse_args e c of Inl msg \<Rightarrow> common_args e c | Inr a \<Rightarrow> a)"

subsection \<open>Requests in plain terms\<close>

text \<open>
  The statements below name every request by what it carries. \<open>stripped b u\<close>: \<open>u\<close> is
  the base URL \<open>b\<close> without its trailing slashes. \<open>connection e a u t\<close>: the namespace
  holds a base URL that strips to \<open>u\<close> and the token \<open>t\<close>, neither empty, and
  \<^verbatim>\<open>Request\<close> finds a scheme in the URLs that start with \<open>u\<close>. A service call posts the
  service data to \<^verbatim>\<open>/api/services/<domain>/<service>\<close>; a state overwrite posts
  \<^verbatim>\<open>{"state": st}\<close> to \<^verbatim>\<open>/api/states/<entity_id>\<close>; both carry the bearer token, the
  JSON content type and the timeout of 30 seconds.
\<close>

definition stripped :: "string \<Rightarrow> string \<Rightarrow> bool" where
  "stripped b u =
     (take (length u) b = u \<and> set (drop (length u) b) \<subseteq> {CHR ''/''}
      \<and> (u = [] \<or> last u \<noteq> CHR ''/''))"

definition connection :: "env \<Rightarrow> args \<Rightarrow> string \<Rightarrow> string \<Rightarrow> bool" where
  "connection e a u t =
     (case base_url a of
        None \<Rightarrow> False
      | Some b \<Rightarrow>
          b \<noteq> [] \<and> stripped b u \<and> token a = Some t \<and> t \<noteq> []
          \<and> (\<forall>path. url_type_known e (u @ path)))"

definition service_call :: "string \<Rightarrow> string \<Rightarrow> string \<Rightarrow> string \<Rightarrow> (string \<times> pyval) list \<Rightarrow> http_request" where
  "service_call u t dmn service data =
     \<lparr>req_method = ''POST'',
      req_url = u @ ''/api/services/'' @ dmn @ ''/'' @ service,
      req_data = Some data,
      req_headers = [(''Authorization'', ''Bearer '' @ t), (''Content-Type'', ''application/json'')],
      req_timeout = 30\<rparr>"

definition state_overwrite :: "string \<Rightarrow> string \<Rightarrow> string \<Rightarrow> string \<Rightarrow> http_request" where
  "state_overwrite u t entity_id st =
     \<lparr>req_method = ''POST'',
      req_url = u @ ''/api/states/'' @ entity_id,
      req_data = Some [(''state'', PyStr st)],
      req_headers = [(''Authorization'', ''Bearer '' @ t), (''Content-Type'', ''application/json'')],
      req_timeout = 30\<rparr>"

text \<open>
  The domain of an entity identifier is \<open>d\<close>: \<open>d\<close> has no dot, and the identifier is
  \<open>d\<close> or starts with \<open>d\<close> and a dot.
\<close>

definition domain_is :: "string \<Rightarrow> string \<Rightarrow> bool" where
  "domain_is entity_id d =
     (CHR ''.'' \<notin> set d \<and> (entity_id = d \<or> take (length d + 1) entity_id = d @ ''.''))"

text \<open>
  A text spells a word of small letters and digits in some case of letters: it has the
  characters of the word in their order, each as it is in the word or, for a small letter,
  as its capital (32 places before it in ASCII).
\<close>

definition same_letter :: "char \<Rightarrow> char \<Rightarrow> bool" where
  "same_letter c l =
     (c = l \<or> (of_char c :: nat) + 32 = of_char l
              \<and> 97 \<le> (of_char l :: nat) \<and> (of_char l :: nat) \<le> 122)"

definition spelled :: "string \<Rightarrow> string \<Rightarrow> bool" where
  "spelled st word = list_all2 same_letter st word"

text \<open>
  The dispatch rule of the spec: the request that writes a value to an entity, from the
  number \<open>x\<close> that \<^verbatim>\<open>float\<close> gives for the value and the text \<open>st\<close> that \<^verbatim>\<open>str\<close> gives
  for it. A numeric helper gets the number, a text helper the text, a selector the text as
  its option, a boolean helper is turned on for the texts \<^verbatim>\<open>on\<close>, \<^verbatim>\<open>true\<close> and \<^verbatim>\<open>1\<close> in
  any case of letters and off otherwise, and any other entity has its state overwritten.
\<close>

definition dispatched :: "string \<Rightarrow> string \<Rightarrow> string \<Rightarrow> pyfloat \<Rightarrow> string \<Rightarrow> http_request" where
  "dispatched u t entity_id x st =
     (if domain_is entity_id ''input_number'' then
        service_call u t ''input_number'' ''set_value''
          [(''entity_id'', PyStr entity_id), (''value'', PyFloat x)]
      else if domain_is entity_id ''input_text'' then
        service_call u t ''input_text'' ''set_value''
          [(''entity_id'', PyStr entity_id), (''value'', PyStr st)]
      else if domain_is entity_id ''input_select'' then
        service_call u t ''input_select'' ''select_option''
          [(''entity_id'', PyStr entity_id), (''option'', PyStr st)]
      else if domain_is entity_id ''input_boolean'' then
        service_call u t ''input_boolean''
          (if spelled st ''on'' \<or> spelled st ''true'' \<or> spelled st ''1''
           then ''turn_on'' else ''turn_off'')
          [(''entity_id'', PyStr entity_id)]
      else state_overwrite u t entity_id st)"

text \<open>
  A request is a state overwrite, or the invocation of a service, by the collection of
  the API its URL lies in.
\<close>

definition is_state_overwrite :: "string \<Rightarrow> http_request \<Rightarrow> bool" where
  "is_state_overwrite u r = starts_with (u @ ''/api/states/'') (req_url r)"

definition is_service_invocation :: "string \<Rightarrow> http_request \<Rightarrow> bool" where
  "is_service_invocation u r = starts_with (u @ ''/api/services/'') (req_url r)"

subsection \<open>Conditions on the surroundings\<close>

text \<open>
  A run can issue requests when the base URL and the token are present and not empty and
  \<^verbatim>\<open>Request\<close> finds a scheme in the URLs built from the base URL. A value is absent
  when it is not given or empty. A run is \<open>unconfigured\<close> when the base URL or the token
  is absent, and then \<^verbatim>\<open>_require\<close> prints \<open>missing_message\<close>, for the base URL if that
  is missing, for the token otherwise. \<open>scheme_ok\<close>: a base URL that is not absent has a
  scheme that \<^verbatim>\<open>Request\<close> finds, once its trailing slashes are stripped.
\<close>

definition absent :: "string option \<Rightarrow> bool" where
  "absent v = (v = None \<or> v = Some [])"

definition configured :: "env \<Rightarrow> args \<Rightarrow> bool" where
  "configured e a =
     (case base_url a of
        None \<Rightarrow> False
      | Some b \<Rightarrow>
          b \<noteq> [] \<and> (\<forall>path. url_type_known e (rstrip_slash b @ path)) \<and> truthy (token a))"

definition unconfigured :: "args \<Rightarrow> bool" where
  "unconfigured a = (\<not> truthy (base_url a) \<or> \<not> truthy (token a))"

definition missing_message :: "args \<Rightarrow> string" where
  "missing_message a =
     ''Missing required value: '' @
       (if absent (base_url a) then ''HA_BASE_URL or --base-url'' else ''HA_TOKEN or --token'')"

definition scheme_ok :: "env \<Rightarrow> args \<Rightarrow> bool" where
  "scheme_ok e a =
     (case base_url a of
        None \<Rightarrow> True
      | Some b \<Rightarrow> b = [] \<or> (\<forall>u path. stripped b u \<longrightarrow> url_type_known e (u @ path)))"

text \<open>
  The server accepts a request when \<^verbatim>\<open>urlopen\<close> returns a response whose body is empty
  or is JSON; anything else makes \<^verbatim>\<open>_request\<close> raise, which ends the run.
\<close>

definition accepted :: "env \<Rightarrow> response \<Rightarrow> bool" where
  "accepted e r =
     (case r of
        HttpOk body \<Rightarrow> body = [] \<or> (case json_loads e body of Json v \<Rightarrow> True | _ \<Rightarrow> False)
      | _ \<Rightarrow> False)"

definition server_accepts :: "env \<Rightarrow> bool" where
  "server_accepts e = (\<forall>h r. accepted e (urlopen e h r))"

text \<open>
  A value can be written to an entity unless the entity is of the domain
  \<^verbatim>\<open>input_number\<close> and \<^verbatim>\<open>float\<close> rejects the value.
\<close>

definition convertible :: "env \<Rightarrow> string \<Rightarrow> pyval \<Rightarrow> bool" where
  "convertible e entity_id v = (domain entity_id = ''input_number'' \<longrightarrow> \<not> isl (py_float e v))"

text \<open>
  The seconds a date and time counts on the wall clock, from the midnight before day 1,
  and the ranges of the fields of a \<^verbatim>\<open>datetime\<close> (day 3652059 is 9999-12-31).
\<close>

definition wall_seconds :: "datetime \<Rightarrow> int" where
  "wall_seconds dt = ((ordinal dt * 24 + hour dt) * 60 + minute dt) * 60 + second dt"

definition valid_datetime :: "datetime \<Rightarrow> bool" where
  "valid_datetime dt =
     (1 \<le> ordinal dt \<and> ordinal dt \<le> 3652059 \<and> 0 \<le> hour dt \<and> hour dt < 24
      \<and> 0 \<le> minute dt \<and> minute dt < 60 \<and> 0 \<le> second dt \<and> second dt < 60
      \<and> 0 \<le> microsecond dt \<and> microsecond dt < 1000000)"

text \<open>
  The run gets as far as building its first request: the command line parses, and
  nothing that the subcommand does before its first call of \<^verbatim>\<open>_request\<close> raises. For
  \<^verbatim>\<open>start\<close> and \<^verbatim>\<open>end\<close> that is the conversion of the status value when the status
  entity is a numeric helper; for \<^verbatim>\<open>end\<close> with a duration, \<^verbatim>\<open>split\<close> and \<^verbatim>\<open>scenario\<close>
  it is the start time (parsed from \<^verbatim>\<open>--start-iso\<close> when that is not absent, else
  computed from the clock) and its conversion by \<^verbatim>\<open>timestamp\<close>.
\<close>

definition status_ok :: "env \<Rightarrow> string \<Rightarrow> string \<Rightarrow> bool" where
  "status_ok e entity_id s =
     (domain_is entity_id ''input_number'' \<longrightarrow> float_of_str e s \<noteq> None)"

definition start_ok :: "env \<Rightarrow> exn + datetime \<Rightarrow> bool" where
  "start_ok e r =
     (case r of
        Inl ex \<Rightarrow> False
      | Inr dt \<Rightarrow> (case timestamp e dt of Seconds x \<Rightarrow> True | _ \<Rightarrow> False))"

definition parsed_start :: "env \<Rightarrow> string \<Rightarrow> exn + datetime" where
  "parsed_start e s =
     (case fromisoformat e s of None \<Rightarrow> Inl (RuntimeError []) | Some dt \<Rightarrow> Inr dt)"

definition given_start :: "env \<Rightarrow> string option \<Rightarrow> exn + datetime \<Rightarrow> bool" where
  "given_start e s computed =
     (case s of
        None \<Rightarrow> start_ok e computed
      | Some v \<Rightarrow> (if v = [] then start_ok e computed else start_ok e (parsed_start e v)))"

definition reaches_request :: "env \<Rightarrow> cli \<Rightarrow> bool" where
  "reaches_request e c =
     (let a = namespace e c in
      case subcommand c of
        Init wh \<Rightarrow> True
      | Start \<Rightarrow> status_ok e (status_entity a) (active_state a)
      | End d \<Rightarrow>
          (case d of
             None \<Rightarrow> status_ok e (status_entity a) (inactive_state a)
           | Some n \<Rightarrow> start_ok e (sub_seconds (now e) n))
      | Energy wh \<Rightarrow> wh \<noteq> None
      | Split wh s \<Rightarrow>
          wh \<noteq> None \<and> given_start e s (sub_seconds (local_midnight (now e)) (10 * 60))
      | Scenario wh d s i \<Rightarrow>
          wh \<noteq> None
          \<and> (i \<or> given_start e s
                    (sub_seconds (now e) (case d of None \<Rightarrow> 1800 | Some n \<Rightarrow> n)))
      | Dump \<Rightarrow> True)"

subsection \<open>Properties of actions\<close>

text \<open>
  Used in the proofs: an action succeeds and issues exactly the requests \<open>rs\<close>; it only
  adds requests to the log; it fails without a request, and not with the status 0; it
  issues no request and does not exit with 0; it exits with 2 after printing the missing
  value.
\<close>

definition succeeds :: "'a io \<Rightarrow> http_request list \<Rightarrow> bool" where
  "succeeds m rs = (\<forall>w. \<exists>v. m w = (Inr v, w\<lparr>requests := requests w @ rs\<rparr>))"

definition appends :: "'a io \<Rightarrow> bool" where
  "appends m = (\<forall>w. \<exists>rs. requests (snd (m w)) = requests w @ rs)"

definition blocked :: "'a io \<Rightarrow> bool" where
  "blocked m =
     (\<forall>w. requests (snd (m w)) = requests w \<and> (\<exists>ex. fst (m w) = Inl ex \<and> ex \<noteq> SystemExit 0))"

definition quiet :: "'a io \<Rightarrow> bool" where
  "quiet m =
     (\<forall>w. requests (snd (m w)) = requests w \<and> fst (m w) \<noteq> Inl (SystemExit 0))"

definition exits2 :: "args \<Rightarrow> 'a io \<Rightarrow> bool" where
  "exits2 a m = (\<forall>w. m w = (Inl (SystemExit 2), w\<lparr>stderr := stderr w @ [missing_message a]\<rparr>))"

section \<open>An example platform\<close>

text \<open>
  On the example platform \<^verbatim>\<open>Request(url)\<close> finds a scheme when the URL starts with a
  non-empty run of characters other than \<^verbatim>\<open>/\<close> and \<^verbatim>\<open>:\<close>, followed by a colon, as
  the pattern \<^verbatim>\<open>([^/:]+):\<close> of \<^verbatim>\<open>urllib\<close> does.
\<close>

fun colon_first :: "string \<Rightarrow> bool" where
  "colon_first [] = False"
| "colon_first (c # cs) =
     (if c = CHR '':'' then True else if c = CHR ''/'' then False else colon_first cs)"

definition has_scheme :: "string \<Rightarrow> bool" where
  "has_scheme url =
     (case url of [] \<Rightarrow> False | c # cs \<Rightarrow> c \<noteq> CHR ''/'' \<and> c \<noteq> CHR '':'' \<and> colon_first cs)"

text \<open>
  A machine whose clock shows 2024-05-01 14:30:15.25 in UTC, with the base URL and the
  token in the environment and a server that answers every request with an empty body.
  The library functions are tables for the values the examples use:
  \<^verbatim>\<open>float("off")\<close> and \<^verbatim>\<open>fromisoformat("not-a-date")\<close> raise \<^verbatim>\<open>ValueError\<close>, and so
  does \<^verbatim>\<open>timestamp\<close> in the year 1.
\<close>

definition demo_env :: env where
  "demo_env =
     \<lparr>environ = map_of [(''HA_BASE_URL'', ''http://ha.local:8123/''), (''HA_TOKEN'', ''secret'')],
      now = \<lparr>ordinal = 739007, hour = 14, minute = 30, second = 15, microsecond = 250000,
              utcoffset = None, fold = 0\<rparr>,
      urlopen = (\<lambda>h r. HttpOk []),
      url_type_known = has_scheme,
      float_of_str = map_of [(''0'', Finite 0), (''1'', Finite 1), (''750'', Finite 750)],
      float_of_big_int = (\<lambda>n. None),
      float_repr = (\<lambda>x. if x = Finite 750 then ''750.0'' else if x = Finite 900 then ''900.0''
                         else if x = Finite 0 then ''0.0'' else if x = NegZero then ''-0.0''
                         else ''nan''),
      container_repr = (\<lambda>v. ''[]''),
      fromisoformat =
        map_of [(''2024-04-30T23:50:00'',
                 \<lparr>ordinal = 739006, hour = 23, minute = 50, second = 0, microsecond = 0,
                  utcoffset = None, fold = 0\<rparr>)],
      timestamp =
        (\<lambda>dt. if ordinal dt \<le> 365 then TimeValueError
               else Seconds
                 (of_int ((ordinal dt - 719163) * 86400 + hour dt * 3600 + minute dt * 60
                          + second dt)
                  + of_int (microsecond dt) / 1000000)),
      json_loads = (\<lambda>s. JsonValueError),
      json_dumps = (\<lambda>v. ''null'')\<rparr>"

text \<open>A command line that gives no shared option.\<close>

definition plain :: "command \<Rightarrow> cli" where
  "plain cmd =
     \<lparr>subcommand = cmd, opt_base_url = None, opt_token = None, opt_energy_sensor = None,
      opt_energy_write_entity = None, opt_status_entity = None, opt_lifetime_helper = None,
      opt_cycle_start_helper = None, opt_daily_active_helper = None, opt_durations_helper = None,
      opt_last_processed_helper = None, opt_active_state = None, opt_inactive_state = None\<rparr>"

definition demo_args :: args where
  "demo_args = namespace demo_env (plain Start)"

text \<open>The same platform without the token in its environment.\<close>

definition no_token_env :: env where
  "no_token_env = demo_env\<lparr>environ := map_of [(''HA_BASE_URL'', ''http://ha.local:8123/'')]\<rparr>"

section \<open>Basic facts\<close>

lemma colon_first_append: "colon_first s \<Longrightarrow> colon_first (s @ t)"
  by (induction s) auto

lemma has_scheme_append: "has_scheme s \<Longrightarrow> has_scheme (s @ t)"
  by (cases s) (auto simp: has_scheme_def colon_first_append)

lemma io_simps:
  "io_return x w = (Inr x, w)"
  "io_raise ex w = (Inl ex, w)"
  "io_lift r w = (r, w)"
  "io_bind m f w = (case m w of (Inl ex, w') \<Rightarrow> (Inl ex, w') | (Inr x, w') \<Rightarrow> f x w')"
  "io_then m n w = (case m w of (Inl ex, w') \<Rightarrow> (Inl ex, w') | (Inr x, w') \<Rightarrow> n w')"
  "print_out s w = (Inr (), w\<lparr>stdout := stdout w @ [s]\<rparr>)"
  "print_err s w = (Inr (), w\<lparr>stderr := stderr w @ [s]\<rparr>)"
  by (simp_all add: io_return_def io_raise_def io_lift_def io_bind_def io_then_def
      print_out_def print_err_def)

lemma require_Some: "s \<noteq> [] \<Longrightarrow> require (Some s) l w = (Inr s, w)"
  by (simp add: require_def io_simps)

lemma require_missing:
  "\<not> truthy v \<Longrightarrow>
   require v l w = (Inl (SystemExit 2), w\<lparr>stderr := stderr w @ [''Missing required value: '' @ l]\<rparr>)"
  by (auto simp: require_def truthy_def io_simps split: option.splits)

lemma request_configured:
  assumes "configured e a"
  shows "request e a m p pl w =
    handle_response e m p (urlopen e (requests w) (api_request a m p pl))
      (w\<lparr>requests := requests w @ [api_request a m p pl]\<rparr>)"
  using assms
  by (auto simp: configured_def request_def get_base_url_def get_token_def require_Some
      truthy_def do_urlopen_def api_request_def Let_def io_simps
      split: option.splits)

lemma handle_accepted:
  "accepted e r \<Longrightarrow> \<exists>v. handle_response e m p r w = (Inr v, w)"
  by (auto simp: accepted_def handle_response_def io_simps
      split: response.splits json_result.splits)

lemma handle_world: "snd (handle_response e m p r w) = w"
  by (auto simp: handle_response_def io_simps split: response.splits json_result.splits)

lemma request_accepted:
  assumes "configured e a" "server_accepts e"
  shows "\<exists>v. request e a m p pl w = (Inr v, w\<lparr>requests := requests w @ [api_request a m p pl]\<rparr>)"
  using assms handle_accepted[of e "urlopen e (requests w) (api_request a m p pl)" m p]
  by (simp add: request_configured server_accepts_def)

lemma request_new:
  "requests (snd (request e a m p pl w)) = requests w @ issued (request e a m p pl)"
  by (auto simp: request_def get_base_url_def get_token_def require_def issued_def world0_def
      do_urlopen_def Let_def handle_world io_simps split: option.splits prod.splits sum.splits)

lemma issued_request_configured:
  "configured e a \<Longrightarrow> issued (request e a m p pl) = [api_request a m p pl]"
  by (simp add: issued_def request_configured handle_world world0_def)

lemma rstrip_slash_split: "\<exists>n. b = rstrip_slash b @ replicate n CHR ''/''"
proof -
  have "\<exists>n. xs = replicate n CHR ''/'' @ dropWhile (\<lambda>c. c = CHR ''/'') xs" for xs :: string
  proof (induction xs)
    case Nil
    then show ?case by simp
  next
    case (Cons x xs)
    then obtain n where n: "xs = replicate n CHR ''/'' @ dropWhile (\<lambda>c. c = CHR ''/'') xs" ..
    show ?case
    proof (cases "x = CHR ''/''")
      case True
      with n have "x # xs = replicate (Suc n) CHR ''/'' @ dropWhile (\<lambda>c. c = CHR ''/'') (x # xs)"
        by simp
      then show ?thesis ..
    next
      case False
      then have "x # xs = replicate 0 CHR ''/'' @ dropWhile (\<lambda>c. c = CHR ''/'') (x # xs)"
        by simp
      then show ?thesis ..
    qed
  qed
  then obtain n where "rev b = replicate n CHR ''/'' @ dropWhile (\<lambda>c. c = CHR ''/'') (rev b)" ..
  then have "rev (rev b) = rev (replicate n CHR ''/'' @ dropWhile (\<lambda>c. c = CHR ''/'') (rev b))"
    by simp
  then have "b = rstrip_slash b @ replicate n CHR ''/''"
    by (simp add: rstrip_slash_def)
  then show ?thesis ..
qed

lemma rstrip_slash_last: "rstrip_slash b = [] \<or> last (rstrip_slash b) \<noteq> CHR ''/''"
  using hd_dropWhile[of "\<lambda>c. c = CHR ''/''" "rev b"]
  by (auto simp: rstrip_slash_def last_rev)

lemma dropWhile_slashes:
  "dropWhile (\<lambda>c. c = CHR ''/'') (replicate n CHR ''/'' @ xs) = dropWhile (\<lambda>c. c = CHR ''/'') xs"
  by (induction n) simp_all

lemma rstrip_slash_trailing: "rstrip_slash (b @ replicate n CHR ''/'') = rstrip_slash b"
  by (simp add: rstrip_slash_def dropWhile_slashes)

lemma rstrip_slash_id: "u = [] \<or> last u \<noteq> CHR ''/'' \<Longrightarrow> rstrip_slash u = u"
  by (cases u rule: rev_cases) (simp_all add: rstrip_slash_def)

lemma stripped_rstrip: "stripped b u \<Longrightarrow> rstrip_slash b = u"
proof -
  assume s: "stripped b u"
  then have "\<forall>y\<in>set (drop (length u) b). y = CHR ''/''"
    by (auto simp: stripped_def)
  then have "drop (length u) b = replicate (length (drop (length u) b)) CHR ''/''"
    by (simp only: replicate_length_same)
  moreover from s have "b = u @ drop (length u) b"
    by (metis append_take_drop_id stripped_def)
  ultimately have "b = u @ replicate (length (drop (length u) b)) CHR ''/''"
    by simp
  then have "rstrip_slash b = rstrip_slash u"
    by (metis rstrip_slash_trailing)
  with s show ?thesis
    by (simp add: rstrip_slash_id stripped_def)
qed

lemma domain_is_domain: "domain_is ent d \<Longrightarrow> domain ent = d"
proof -
  assume a: "domain_is ent d"
  then have nd: "CHR ''.'' \<notin> set d" by (simp add: domain_is_def)
  from a consider "ent = d" | "take (length d + 1) ent = d @ ''.''"
    by (auto simp: domain_is_def)
  then show ?thesis
  proof cases
    case 1
    with nd show ?thesis by (auto simp: domain_def takeWhile_eq_all_conv)
  next
    case 2
    then have "ent = (d @ ''.'') @ drop (length d + 1) ent"
      by (metis append_take_drop_id)
    then have "ent = d @ CHR ''.'' # drop (length d + 1) ent" by simp
    then have "takeWhile (\<lambda>c. c \<noteq> CHR ''.'') ent =
        takeWhile (\<lambda>c. c \<noteq> CHR ''.'') (d @ CHR ''.'' # drop (length d + 1) ent)"
      by simp
    also have "\<dots> = takeWhile (\<lambda>c. c \<noteq> CHR ''.'') d"
      by (rule takeWhile_tail) simp
    also have "\<dots> = d"
      using nd by (auto simp: takeWhile_eq_all_conv)
    finally have "takeWhile (\<lambda>c. c \<noteq> CHR ''.'') ent = d" .
    then show ?thesis by (simp add: domain_def)
  qed
qed

lemma domain_domain_is: "domain ent = d \<Longrightarrow> domain_is ent d"
proof -
  assume a: "domain ent = d"
  let ?P = "\<lambda>c. c \<noteq> CHR ''.''"
  have nd: "CHR ''.'' \<notin> set d"
    using a set_takeWhileD[of "CHR ''.''" ?P ent] by (auto simp: domain_def)
  have e: "ent = d @ dropWhile ?P ent"
    using a takeWhile_dropWhile_id[of ?P ent] by (simp add: domain_def)
  show ?thesis
  proof (cases "dropWhile ?P ent")
    case Nil
    with e nd show ?thesis by (simp add: domain_is_def)
  next
    case (Cons c cs)
    with hd_dropWhile[of ?P ent] have "c = CHR ''.''" by simp
    with Cons e have "ent = d @ CHR ''.'' # cs" by simp
    then have "take (length d + 1) ent = d @ ''.''" by simp
    with nd show ?thesis by (simp add: domain_is_def)
  qed
qed

lemma domain_iff: "domain ent = d \<longleftrightarrow> domain_is ent d"
  using domain_is_domain domain_domain_is by blast

lemma stripped_self: "stripped b (rstrip_slash b)"
proof -
  obtain n where n: "b = rstrip_slash b @ replicate n CHR ''/''"
    using rstrip_slash_split by blast
  then have "take (length (rstrip_slash b)) b = rstrip_slash b"
    by (metis append_eq_conv_conj)
  moreover from n have "drop (length (rstrip_slash b)) b = replicate n CHR ''/''"
    by (metis append_eq_conv_conj)
  ultimately show ?thesis
    using rstrip_slash_last[of b] by (auto simp: stripped_def)
qed

lemma absent_truthy: "absent v = (\<not> truthy v)"
  by (auto simp: absent_def truthy_def split: option.splits)

lemma status_convertible: "status_ok e ent s \<Longrightarrow> convertible e ent (PyStr s)"
  by (auto simp: status_ok_def convertible_def domain_iff py_float_def split: option.splits)

lemma same_letter_lower:
  assumes "\<not> (65 \<le> (of_char l :: nat) \<and> (of_char l :: nat) \<le> 90)"
  shows "lower_char c = l \<longleftrightarrow> same_letter c l"
proof
  assume e: "lower_char c = l"
  show "same_letter c l"
  proof (cases "65 \<le> (of_char c :: nat) \<and> (of_char c :: nat) \<le> 90")
    case True
    with e have "l = char_of ((of_char c :: nat) + 32)"
      by (simp add: lower_char_def Let_def)
    with True have "(of_char l :: nat) = of_char c + 32"
      by simp
    with True show ?thesis by (simp add: same_letter_def)
  next
    case False
    with e show ?thesis by (auto simp: lower_char_def Let_def same_letter_def)
  qed
next
  assume "same_letter c l"
  then consider "c = l" | "(of_char c :: nat) + 32 = of_char l" "97 \<le> (of_char l :: nat)"
      "(of_char l :: nat) \<le> 122"
    by (auto simp: same_letter_def)
  then show "lower_char c = l"
  proof cases
    case 1
    with assms show ?thesis by (auto simp: lower_char_def Let_def)
  next
    case 2
    then have "65 \<le> (of_char c :: nat) \<and> (of_char c :: nat) \<le> 90" by simp
    moreover have "char_of ((of_char c :: nat) + 32) = l"
      using 2(1) by simp
    ultimately show ?thesis by (simp add: lower_char_def Let_def)
  qed
qed

lemma lower_spelled:
  "\<forall>l \<in> set word. \<not> (65 \<le> (of_char l :: nat) \<and> (of_char l :: nat) \<le> 90) \<Longrightarrow>
   lower st = word \<longleftrightarrow> spelled st word"
proof (induction st arbitrary: word)
  case Nil
  then show ?case by (auto simp: lower_def spelled_def)
next
  case (Cons c st)
  show ?case
  proof (cases word)
    case Nil
    then show ?thesis by (simp add: lower_def spelled_def)
  next
    case (Cons l ls)
    with Cons.prems have l: "\<not> (65 \<le> (of_char l :: nat) \<and> (of_char l :: nat) \<le> 90)"
      and ls: "\<forall>l \<in> set ls. \<not> (65 \<le> (of_char l :: nat) \<and> (of_char l :: nat) \<le> 90)"
      by simp_all
    from Cons.IH[OF ls] same_letter_lower[OF l, of c] Cons show ?thesis
      by (simp add: lower_def spelled_def)
  qed
qed

lemma lower_on:
  "lower st = ''on'' \<longleftrightarrow> spelled st ''on''"
  "lower st = ''true'' \<longleftrightarrow> spelled st ''true''"
  "lower st = ''1'' \<longleftrightarrow> spelled st ''1''"
  by (rule lower_spelled; simp)+

lemma succeeds_then: "succeeds m rs \<Longrightarrow> io_then m n w = n (w\<lparr>requests := requests w @ rs\<rparr>)"
proof -
  assume "succeeds m rs"
  then obtain v where "m w = (Inr v, w\<lparr>requests := requests w @ rs\<rparr>)"
    unfolding succeeds_def by blast
  then show ?thesis by (simp add: io_then_def io_bind_def)
qed

lemma succeeds_request:
  "configured e a \<Longrightarrow> server_accepts e \<Longrightarrow> succeeds (request e a m p pl) [api_request a m p pl]"
  unfolding succeeds_def using request_accepted by blast

lemma succeeds_service:
  "configured e a \<Longrightarrow> server_accepts e \<Longrightarrow>
   succeeds (call_service e a d s data) [service_request a d s data]"
  by (simp add: call_service_def service_request_def succeeds_request)

lemma succeeds_set_by_domain:
  assumes "configured e a" "server_accepts e" "convertible e entity_id v"
  shows "succeeds (set_by_domain e a entity_id v) (issued (set_by_domain e a entity_id v))
    \<and> length (issued (set_by_domain e a entity_id v)) = 1"
proof -
  have "\<exists>m p pl. set_by_domain e a entity_id v = request e a m p pl"
  proof (cases "domain entity_id = ''input_number''")
    case True
    with assms(3) obtain x where "py_float e v = Inr x"
      by (cases "py_float e v") (auto simp: convertible_def)
    with True have "set_by_domain e a entity_id v =
        request e a ''POST'' (''/api/services/'' @ ''input_number'' @ ''/'' @ ''set_value'')
          (Some [(''entity_id'', PyStr entity_id), (''value'', PyFloat x)])"
      by (simp add: set_by_domain_def set_input_number_def call_service_def io_simps fun_eq_iff)
    then show ?thesis by blast
  next
    case False
    then show ?thesis
      by (auto simp: set_by_domain_def set_input_text_def set_input_select_def
          set_input_boolean_def set_state_def call_service_def Let_def)
  qed
  then obtain m p pl where eq: "set_by_domain e a entity_id v = request e a m p pl" by blast
  with assms show ?thesis
    by (simp add: succeeds_request issued_request_configured)
qed

lemma not_convertible:
  "\<not> convertible e entity_id v \<Longrightarrow> \<exists>ex. \<forall>w. set_by_domain e a entity_id v w = (Inl ex, w)"
  by (cases "py_float e v") (auto simp: convertible_def set_by_domain_def io_simps)

lemma init_helpers_reset:
  assumes "configured e a" "server_accepts e"
  shows "init_helpers e a wh w =
     io_then (set_by_domain e a (status_entity a) (PyStr (inactive_state a)))
       (if wh \<noteq> PyNone then io_then (set_energy e a wh) (io_return ()) else io_return ())
       (w\<lparr>requests := requests w @ reset_requests a\<rparr>)"
  unfolding init_helpers_def set_input_number_def set_input_text_def set_cycle_start_def
  by (simp only: succeeds_then[OF succeeds_service[OF assms]])
     (simp add: reset_requests_def)

lemma snd_run: "snd (run e c) = snd (main e c world0)"
  by (simp add: run_def split: prod.splits sum.splits exn.splits)

lemma except_requests:
  "requests (snd (except_RuntimeError m (\<lambda>msg. io_then (print_err msg) (io_raise ex)) w)) =
   requests (snd (m w))"
  by (simp add: except_RuntimeError_def io_simps split: prod.splits sum.splits exn.splits)

lemma run_requests:
  "parse_args e c = Inr a0 \<Longrightarrow>
   requests (snd (run e c)) =
   requests (snd (func (subcommand c) e (fill_energy_write_entity a0) world0))"
  by (simp add: snd_run main_def except_requests)

lemma namespace_Inr: "parse_args e c = Inr a0 \<Longrightarrow> namespace e c = fill_energy_write_entity a0"
  by (simp add: namespace_def)

lemma parse_Init:
  "subcommand c = Init wh \<Longrightarrow>
   parse_args e c =
     Inr (common_args e c\<lparr>energy_wh := (case wh of None \<Rightarrow> PyInt 0 | Some x \<Rightarrow> PyFloat x)\<rparr>)"
  by (simp add: parse_args_def)

lemma energy_wh_fill [simp]: "energy_wh (fill_energy_write_entity a) = energy_wh a"
  by (simp add: fill_energy_write_entity_def)

lemma set_by_domain_cases:
  "(\<exists>ex. py_float e v = Inl ex \<and> (\<forall>w. set_by_domain e a entity_id v w = (Inl ex, w)))
   \<or> (\<exists>m p pl. set_by_domain e a entity_id v = request e a m p pl)"
proof (cases "domain entity_id = ''input_number''")
  case True
  show ?thesis
  proof (cases "py_float e v")
    case (Inl ex)
    with True have "\<forall>w. set_by_domain e a entity_id v w = (Inl ex, w)"
      by (simp add: set_by_domain_def io_simps)
    with Inl show ?thesis by blast
  next
    case (Inr x)
    with True have "set_by_domain e a entity_id v =
        request e a ''POST'' (''/api/services/'' @ ''input_number'' @ ''/'' @ ''set_value'')
          (Some [(''entity_id'', PyStr entity_id), (''value'', PyFloat x)])"
      by (simp add: set_by_domain_def set_input_number_def call_service_def io_simps fun_eq_iff)
    then show ?thesis by blast
  qed
next
  case False
  then have "\<exists>m p pl. set_by_domain e a entity_id v = request e a m p pl"
    by (auto simp: set_by_domain_def set_input_text_def set_input_select_def
        set_input_boolean_def set_state_def call_service_def Let_def)
  then show ?thesis by blast
qed

lemma set_by_domain_new:
  "requests (snd (set_by_domain e a entity_id v w)) =
   requests w @ issued (set_by_domain e a entity_id v)"
  using set_by_domain_cases[of e v a entity_id]
proof (elim disjE exE)
  fix ex assume "py_float e v = Inl ex \<and> (\<forall>w. set_by_domain e a entity_id v w = (Inl ex, w))"
  then show ?thesis by (simp add: issued_def world0_def)
next
  fix m p pl assume "set_by_domain e a entity_id v = request e a m p pl"
  then show ?thesis by (simp add: request_new)
qed

lemma set_energy_new:
  "requests (snd (set_energy e a v w)) = requests w @ issued (set_energy e a v)"
proof (cases "energy_write_entity a")
  case None
  then show ?thesis by (simp add: set_energy_def io_simps issued_def world0_def)
next
  case (Some entity_id)
  then have "set_energy e a v = set_by_domain e a entity_id v"
    by (simp add: set_energy_def fun_eq_iff)
  then show ?thesis by (simp add: set_by_domain_new)
qed

lemma energy_tail_new:
  "requests (snd ((if wh \<noteq> PyNone then io_then (set_energy e a wh) (io_return ())
                   else io_return ()) w)) =
   requests w @ (if wh \<noteq> PyNone then issued (set_energy e a wh) else [])"
proof (cases "wh \<noteq> PyNone")
  case True
  obtain r w' where m: "set_energy e a wh w = (r, w')"
    by (cases "set_energy e a wh w")
  with set_energy_new[of e a wh w] have "requests w' = requests w @ issued (set_energy e a wh)"
    by simp
  with True m show ?thesis
    by (cases r) (simp_all add: io_simps)
next
  case False
  then show ?thesis by (simp add: io_simps)
qed

lemma fill_Some: "\<exists>t. energy_write_entity (fill_energy_write_entity a0) = Some t"
  by (auto simp: fill_energy_write_entity_def truthy_def split: option.splits)

lemma set_energy_eq:
  "energy_write_entity a = Some t \<Longrightarrow> set_energy e a v = set_by_domain e a t v"
  by (simp add: set_energy_def)

lemma run_ok:
  "parse_args e c = Inr a0 \<Longrightarrow>
   func (subcommand c) e (fill_energy_write_entity a0) world0 = (Inr u, w) \<Longrightarrow>
   run e c = (Exit 0, w)"
  by (simp add: run_def main_def except_RuntimeError_def)

lemma demo_url_type_known: "url_type_known demo_env (''http://ha.local:8123'' @ path)"
proof -
  have "has_scheme ''http://ha.local:8123''" by code_simp
  then show ?thesis by (simp add: demo_env_def has_scheme_append del: append.simps)
qed

lemma configured_demo:
  "base_url a = Some ''http://ha.local:8123/'' \<Longrightarrow> truthy (token a) \<Longrightarrow> configured demo_env a"
proof -
  have "rstrip_slash ''http://ha.local:8123/'' = ''http://ha.local:8123''" by code_simp
  moreover assume "base_url a = Some ''http://ha.local:8123/''" "truthy (token a)"
  ultimately show ?thesis
    using demo_url_type_known by (simp add: configured_def del: append.simps)
qed

lemma scheme_ok_no_token:
  "base_url a = Some ''http://ha.local:8123/'' \<Longrightarrow> scheme_ok no_token_env a"
proof -
  have "rstrip_slash ''http://ha.local:8123/'' = ''http://ha.local:8123''" by code_simp
  moreover assume "base_url a = Some ''http://ha.local:8123/''"
  ultimately show ?thesis
    using demo_url_type_known stripped_rstrip[of "''http://ha.local:8123/''"]
    by (auto simp: scheme_ok_def no_token_env_def simp del: append.simps)
qed

lemma configured_json_loads [simp]: "configured (e\<lparr>json_loads := f\<rparr>) a = configured e a"
  by (simp add: configured_def split: option.splits)

lemma demo_server_accepts: "server_accepts demo_env"
  by (simp add: server_accepts_def accepted_def demo_env_def)

lemma split_seconds_sum:
  fixes r :: int
  shows "(r div 3600 * 60 + r mod 3600 div 60) * 60 + r mod 60 = r"
proof -
  have "r mod 60 = r mod 3600 mod 60"
    by (simp add: mod_mod_cancel)
  moreover have "r mod 3600 div 60 * 60 + r mod 3600 mod 60 = r mod 3600"
    by simp
  moreover have "r div 3600 * 3600 + r mod 3600 = r"
    by simp
  ultimately show ?thesis by (simp add: algebra_simps)
qed

lemma split_seconds_range:
  fixes r :: int
  assumes "0 \<le> r" "r < 86400"
  shows "0 \<le> r div 3600" and "r div 3600 < 24"
    and "0 \<le> r mod 3600 div 60" and "r mod 3600 div 60 < 60"
    and "0 \<le> r mod 60" and "r mod 60 < 60"
  using assms by (simp_all add: div_less_iff_less_mult pos_imp_zdiv_nonneg_iff)

lemma sub_seconds_ok:
  assumes v: "valid_datetime dt" and o: "1 < ordinal dt" and n: "0 \<le> n" "n \<le> 86400"
  shows "\<exists>s. sub_seconds dt n = Inr s \<and> wall_seconds s = wall_seconds dt - n
            \<and> valid_datetime s \<and> microsecond s = microsecond dt \<and> utcoffset s = utcoffset dt
            \<and> fold s = 0"
proof -
  define total where "total = wall_seconds dt - n"
  define days where "days = total div 86400"
  define r where "r = total mod 86400"
  have w: "ordinal dt * 86400 \<le> wall_seconds dt" "wall_seconds dt < (ordinal dt + 1) * 86400"
    using v by (simp_all add: valid_datetime_def wall_seconds_def)
  have r: "0 \<le> r" "r < 86400" by (simp_all add: r_def)
  have t: "total = days * 86400 + r" by (simp add: days_def r_def)
  have d: "0 < days" "days \<le> max_ordinal"
    using w o n v t r by (simp_all add: total_def valid_datetime_def max_ordinal_def)
  let ?s = "dt\<lparr>ordinal := days, hour := r div 3600, minute := r mod 3600 div 60,
                second := r mod 60, fold := 0\<rparr>"
  have eq: "sub_seconds dt n = Inr ?s"
    using d by (simp add: sub_seconds_def Let_def total_def days_def r_def wall_seconds_def)
  have "wall_seconds ?s = days * 86400 + ((r div 3600 * 60 + r mod 3600 div 60) * 60 + r mod 60)"
    by (simp add: wall_seconds_def algebra_simps)
  with split_seconds_sum[of r] t have ws: "wall_seconds ?s = wall_seconds dt - n"
    by (simp add: total_def)
  have "valid_datetime ?s"
    using d split_seconds_range[OF r] v by (simp add: valid_datetime_def max_ordinal_def)
  with eq ws show ?thesis by simp
qed

lemma ten_minutes_before:
  fixes k :: int
  shows "(k * 86400 - 600) div 86400 = k - 1" and "(k * 86400 - 600) mod 86400 = 85800"
proof -
  have d: "(j * 86400 + 85800) div 86400 = j" and m: "(j * 86400 + 85800) mod 86400 = 85800"
    for j :: int
    by simp_all
  have e: "k * 86400 - 600 = (k - 1) * 86400 + 85800"
    by (simp add: algebra_simps)
  show "(k * 86400 - 600) div 86400 = k - 1" by (simp only: e d)
  show "(k * 86400 - 600) mod 86400 = 85800" by (simp only: e m)
qed

lemma midnight_minus_ten:
  assumes "1 < ordinal n" "ordinal n \<le> max_ordinal + 1"
  shows "sub_seconds (local_midnight n) (10 * 60) =
     Inr \<lparr>ordinal = ordinal n - 1, hour = 23, minute = 50, second = 0, microsecond = 0,
          utcoffset = utcoffset n, fold = 0\<rparr>"
proof -
  have t: "((ordinal (local_midnight n) * 24 + hour (local_midnight n)) * 60
            + minute (local_midnight n)) * 60 + second (local_midnight n) - 10 * 60
           = ordinal n * 86400 - 600"
    by (simp add: local_midnight_def)
  have r: "(85800::int) div 3600 = 23" "(85800::int) mod 3600 div 60 = 50" "(85800::int) mod 60 = 0"
    by simp_all
  have "sub_seconds (local_midnight n) (10 * 60) =
     Inr ((local_midnight n)\<lparr>ordinal := ordinal n - 1, hour := 23, minute := 50, second := 0,
           fold := 0\<rparr>)"
    unfolding sub_seconds_def Let_def t ten_minutes_before r
    using assms by simp
  then show ?thesis
    by (simp add: local_midnight_def)
qed

lemma parse_Split:
  "subcommand c = Split (Some x) s \<Longrightarrow>
   parse_args e c = Inr (common_args e c\<lparr>energy_wh := PyFloat x, start_iso := s\<rparr>)"
  by (simp add: parse_args_def required_energy_def)

lemma start_iso_fill [simp]: "start_iso (fill_energy_write_entity a) = start_iso a"
  by (simp add: fill_energy_write_entity_def)

lemma appends_return [simp]: "appends (io_return x)"
  by (simp add: appends_def io_simps)

lemma appends_raise [simp]: "appends (io_raise ex)"
  by (simp add: appends_def io_simps)

lemma appends_lift [simp]: "appends (io_lift r)"
  by (simp add: appends_def io_simps)

lemma appends_print_out [simp]: "appends (print_out s)"
  by (simp add: appends_def io_simps)

lemma appends_print_err [simp]: "appends (print_err s)"
  by (simp add: appends_def io_simps)

lemma appends_bind: "appends m \<Longrightarrow> (\<And>x. appends (f x)) \<Longrightarrow> appends (io_bind m f)"
  unfolding appends_def
proof
  fix w
  assume m: "\<forall>w. \<exists>rs. requests (snd (m w)) = requests w @ rs"
    and f: "\<And>x. \<forall>w. \<exists>rs. requests (snd (f x w)) = requests w @ rs"
  obtain r w' where mw: "m w = (r, w')" by (cases "m w")
  from m mw obtain rs where rs: "requests w' = requests w @ rs"
    by (metis snd_conv)
  show "\<exists>rs. requests (snd (io_bind m f w)) = requests w @ rs"
  proof (cases r)
    case (Inl ex)
    with mw rs show ?thesis by (simp add: io_simps)
  next
    case (Inr x)
    from f[of x] obtain rs' where "requests (snd (f x w')) = requests w' @ rs'" by blast
    with Inr mw rs show ?thesis by (simp add: io_simps)
  qed
qed

lemma appends_then: "appends m \<Longrightarrow> appends n \<Longrightarrow> appends (io_then m n)"
  by (simp add: io_then_def appends_bind)

lemma appends_request [simp]: "appends (request e a m p pl)"
  unfolding appends_def using request_new by blast

lemma appends_call_service [simp]: "appends (call_service e a d s data)"
  by (simp add: call_service_def)

lemma appends_set_by_domain [simp]: "appends (set_by_domain e a entity_id v)"
  unfolding appends_def using set_by_domain_new by blast

lemma appends_set_energy [simp]: "appends (set_energy e a v)"
  unfolding appends_def using set_energy_new by blast

lemma requests_then_first:
  assumes "configured e a" and "appends n"
  shows "\<exists>rest. requests (snd (io_then (request e a m p pl) n world0)) = api_request a m p pl # rest"
proof -
  let ?w = "world0\<lparr>requests := requests world0 @ [api_request a m p pl]\<rparr>"
  obtain r where r: "request e a m p pl world0 = (r, ?w)"
    using request_configured[OF assms(1), of m p pl world0] handle_world[of e m p _ ?w]
    by (metis prod.collapse)
  show ?thesis
  proof (cases r)
    case (Inl ex)
    with r show ?thesis by (simp add: io_simps world0_def)
  next
    case (Inr x)
    from assms(2) obtain rs where "requests (snd (n ?w)) = requests ?w @ rs"
      unfolding appends_def by blast
    with Inr r show ?thesis by (simp add: io_simps world0_def)
  qed
qed

lemma parse_End:
  "subcommand c = End d \<Longrightarrow> parse_args e c = Inr (common_args e c\<lparr>duration_sec := d\<rparr>)"
  by (simp add: parse_args_def)

lemma duration_sec_fill [simp]: "duration_sec (fill_energy_write_entity a) = duration_sec a"
  by (simp add: fill_energy_write_entity_def)

lemma succeeds_set_cycle_start:
  "configured e a \<Longrightarrow> server_accepts e \<Longrightarrow>
   succeeds (io_then (set_cycle_start e a ts) (io_return ()))
     [service_request a ''input_datetime'' ''set_datetime''
        [(''entity_id'', PyStr (cycle_start_helper a)), (''timestamp'', PyInt ts)]]"
  unfolding succeeds_def set_cycle_start_def
  by (simp add: succeeds_then[OF succeeds_service] io_simps(1))

lemma blocked_bind: "blocked m \<Longrightarrow> blocked (io_bind m f)"
  unfolding blocked_def
proof
  fix w
  assume b: "\<forall>w. requests (snd (m w)) = requests w \<and> (\<exists>ex. fst (m w) = Inl ex \<and> ex \<noteq> SystemExit 0)"
  obtain r w' where mw: "m w = (r, w')" by (cases "m w")
  with b[rule_format, of w] obtain ex where "r = Inl ex" "ex \<noteq> SystemExit 0" "requests w' = requests w"
    by auto
  with mw show "requests (snd (io_bind m f w)) = requests w
      \<and> (\<exists>ex. fst (io_bind m f w) = Inl ex \<and> ex \<noteq> SystemExit 0)"
    by (simp add: io_simps)
qed

lemma blocked_then: "blocked m \<Longrightarrow> blocked (io_then m n)"
  by (simp add: io_then_def blocked_bind)

lemma quiet_bind: "quiet m \<Longrightarrow> (\<And>x. blocked (f x)) \<Longrightarrow> blocked (io_bind m f)"
  unfolding blocked_def quiet_def
proof
  fix w
  assume q: "\<forall>w. requests (snd (m w)) = requests w \<and> fst (m w) \<noteq> Inl (SystemExit 0)"
    and f: "\<And>x. \<forall>w. requests (snd (f x w)) = requests w
               \<and> (\<exists>ex. fst (f x w) = Inl ex \<and> ex \<noteq> SystemExit 0)"
  obtain r w' where mw: "m w = (r, w')" by (cases "m w")
  with q[rule_format, of w] have w': "requests w' = requests w" "r \<noteq> Inl (SystemExit 0)"
    by simp_all
  show "requests (snd (io_bind m f w)) = requests w
      \<and> (\<exists>ex. fst (io_bind m f w) = Inl ex \<and> ex \<noteq> SystemExit 0)"
  proof (cases r)
    case (Inl ex)
    with mw w' show ?thesis by (simp add: io_simps)
  next
    case (Inr x)
    with mw w' f[of x, rule_format, of w'] show ?thesis by (simp add: io_simps)
  qed
qed

lemma quiet_then: "quiet m \<Longrightarrow> blocked n \<Longrightarrow> blocked (io_then m n)"
  by (simp add: io_then_def quiet_bind)

lemma quiet_simps [simp]:
  "quiet (io_return x)" "quiet (parse_start_iso e s)" "quiet (io_lift (sub_seconds dt n))"
  "quiet (io_lift (timestamp_int e dt))"
  by (simp_all add: quiet_def io_simps parse_start_iso_def sub_seconds_def timestamp_int_def
      Let_def split: option.splits time_result.splits)

lemma quiet_raise: "ex \<noteq> SystemExit 0 \<Longrightarrow> quiet (io_raise ex)"
  by (simp add: quiet_def io_simps)

lemma blocked_raise: "ex \<noteq> SystemExit 0 \<Longrightarrow> blocked (io_raise ex)"
  by (simp add: blocked_def io_simps)

lemma py_float_error: "py_float e v = Inl ex \<Longrightarrow> ex \<noteq> SystemExit n"
  by (auto simp: py_float_def float_of_int_def split: pyval.splits option.splits if_splits)

lemma blocked_request: "unconfigured a \<Longrightarrow> blocked (request e a m p pl)"
  by (auto simp: unconfigured_def blocked_def request_def get_base_url_def get_token_def
      require_def truthy_def io_simps Let_def split: option.splits)

lemma blocked_call_service: "unconfigured a \<Longrightarrow> blocked (call_service e a d s data)"
  by (simp add: call_service_def blocked_request)

lemma blocked_set_by_domain: "unconfigured a \<Longrightarrow> blocked (set_by_domain e a entity_id v)"
  using set_by_domain_cases[of e v a entity_id]
proof (elim disjE exE)
  fix ex assume "py_float e v = Inl ex \<and> (\<forall>w. set_by_domain e a entity_id v w = (Inl ex, w))"
  then show ?thesis using py_float_error[of e v ex 0] by (simp add: blocked_def)
next
  fix m p pl assume "unconfigured a" "set_by_domain e a entity_id v = request e a m p pl"
  then show ?thesis by (simp add: blocked_request)
qed

lemma blocked_set_energy: "unconfigured a \<Longrightarrow> blocked (set_energy e a v)"
  by (cases "energy_write_entity a")
     (simp_all add: set_energy_def blocked_set_by_domain blocked_raise)

lemma blocked_init_helpers: "unconfigured a \<Longrightarrow> blocked (init_helpers e a wh)"
  by (simp add: init_helpers_def set_input_number_def blocked_then blocked_call_service)

lemma blocked_set_cycle_start: "unconfigured a \<Longrightarrow> blocked (set_cycle_start e a ts)"
  by (simp add: set_cycle_start_def blocked_call_service)

lemma blocked_func: "unconfigured a \<Longrightarrow> blocked (func cmd e a)"
proof (cases cmd)
  case (Init wh)
  assume "unconfigured a"
  with Init show ?thesis by (simp add: func_def cmd_init_def blocked_then blocked_init_helpers)
next
  case Start
  assume "unconfigured a"
  with Start show ?thesis by (simp add: func_def cmd_start_def blocked_then blocked_set_by_domain)
next
  case (End d)
  assume u: "unconfigured a"
  have "blocked (cmd_end e a)"
  proof (cases "duration_sec a")
    case None
    with u show ?thesis
      by (simp add: cmd_end_def quiet_then blocked_then blocked_set_by_domain)
  next
    case (Some n)
    with u show ?thesis
      by (simp add: cmd_end_def quiet_bind blocked_then blocked_set_cycle_start)
  qed
  with End show ?thesis by (simp add: func_def)
next
  case (Energy wh)
  assume "unconfigured a"
  with Energy show ?thesis by (simp add: func_def cmd_energy_def blocked_then blocked_set_energy)
next
  case (Split wh s)
  assume "unconfigured a"
  with Split show ?thesis
    by (simp add: func_def cmd_split_def Let_def quiet_bind blocked_then blocked_set_cycle_start)
next
  case (Scenario wh d s i)
  assume u: "unconfigured a"
  have "blocked (cmd_scenario e a)"
  proof (cases "init a")
    case True
    with u show ?thesis by (simp add: cmd_scenario_def blocked_then blocked_init_helpers)
  next
    case False
    have "quiet (if truthy (start_iso a) then parse_start_iso e (the (start_iso a))
         else (case duration_sec a of None \<Rightarrow> io_raise TypeError
               | Some d \<Rightarrow> io_lift (sub_seconds (now e) d)))"
      by (simp add: quiet_raise split: option.splits)
    with False u show ?thesis
      by (simp add: cmd_scenario_def quiet_then quiet_bind blocked_then blocked_set_cycle_start)
  qed
  with Scenario show ?thesis by (simp add: func_def)
next
  case Dump
  assume "unconfigured a"
  with Dump show ?thesis
    by (simp add: func_def cmd_dump_def get_state_def blocked_bind blocked_request)
qed

lemma unconfigured_run:
  assumes "unconfigured (namespace e c)"
  shows "requests (snd (run e c)) = [] \<and> fst (run e c) \<noteq> Exit 0"
proof (cases "parse_args e c")
  case (Inl msg)
  then show ?thesis
    by (simp add: run_def main_def io_simps world0_def)
next
  case (Inr a0)
  let ?a = "fill_energy_write_entity a0"
  from assms Inr have "unconfigured ?a" by (simp add: namespace_Inr)
  then have "blocked (func (subcommand c) e ?a)" by (rule blocked_func)
  then obtain ex w where f: "func (subcommand c) e ?a world0 = (Inl ex, w)" "requests w = []"
    "ex \<noteq> SystemExit 0"
    unfolding blocked_def
    by (metis prod.collapse world.select_convs(1) world0_def)
  with Inr show ?thesis
    by (cases ex) (simp_all add: run_def main_def except_RuntimeError_def io_simps)
qed

lemma exits2_bind: "exits2 a m \<Longrightarrow> exits2 a (io_bind m f)"
  by (simp add: exits2_def io_simps)

lemma exits2_then: "exits2 a m \<Longrightarrow> exits2 a (io_then m n)"
  by (simp add: exits2_def io_simps)

lemma io_left_unit:
  "io_then (io_return x) n = n" "io_bind (io_return x) f = f x" "io_bind (io_lift (Inr x)) f = f x"
  by (simp_all add: fun_eq_iff io_simps)

lemma exits2_request:
  assumes "unconfigured a" and "scheme_ok e a"
  shows "exits2 a (request e a m p pl)"
proof (cases "truthy (base_url a)")
  case False
  then show ?thesis
    by (simp add: exits2_def request_def get_base_url_def require_missing missing_message_def
        absent_truthy io_simps)
next
  case True
  then obtain b where b: "base_url a = Some b" "b \<noteq> []"
    by (auto simp: truthy_def split: option.splits)
  with assms(2) stripped_self[of b] have "url_type_known e (rstrip_slash b @ p)"
    by (simp add: scheme_ok_def)
  moreover from True assms(1) have "\<not> truthy (token a)"
    by (simp add: unconfigured_def)
  ultimately show ?thesis
    using b True
    by (simp add: exits2_def request_def get_base_url_def get_token_def require_Some
        require_missing missing_message_def absent_truthy io_simps Let_def)
qed

lemma set_by_domain_convertible:
  assumes "convertible e entity_id v"
  shows "\<exists>m p pl. set_by_domain e a entity_id v = request e a m p pl"
proof (cases "domain entity_id = ''input_number''")
  case True
  with assms obtain x where "py_float e v = Inr x"
    by (cases "py_float e v") (auto simp: convertible_def)
  with True have "set_by_domain e a entity_id v =
      request e a ''POST'' (''/api/services/'' @ ''input_number'' @ ''/'' @ ''set_value'')
        (Some [(''entity_id'', PyStr entity_id), (''value'', PyFloat x)])"
    by (simp add: set_by_domain_def set_input_number_def call_service_def io_simps fun_eq_iff)
  then show ?thesis by blast
next
  case False
  then show ?thesis
    by (auto simp: set_by_domain_def set_input_text_def set_input_select_def
        set_input_boolean_def set_state_def call_service_def Let_def)
qed

lemma exits2_set_by_domain:
  "unconfigured a \<Longrightarrow> scheme_ok e a \<Longrightarrow> convertible e entity_id v \<Longrightarrow>
   exits2 a (set_by_domain e a entity_id v)"
  using set_by_domain_convertible[of e entity_id v a] exits2_request[of a e] by auto

lemma exits2_call_service:
  "unconfigured a \<Longrightarrow> scheme_ok e a \<Longrightarrow> exits2 a (call_service e a d s data)"
  by (simp add: call_service_def exits2_request)

lemma exits2_init_helpers:
  "unconfigured a \<Longrightarrow> scheme_ok e a \<Longrightarrow> exits2 a (init_helpers e a wh)"
  by (simp add: init_helpers_def set_input_number_def exits2_then exits2_call_service)

lemma exits2_cycle:
  "unconfigured a \<Longrightarrow> scheme_ok e a \<Longrightarrow> exits2 a (io_then (set_cycle_start e a ts) n)"
  by (simp add: set_cycle_start_def exits2_then exits2_call_service)

lemma init_fill [simp]: "init (fill_energy_write_entity a) = init a"
  by (simp add: fill_energy_write_entity_def)

lemma start_okE:
  assumes "start_ok e r"
  obtains dt ts where "r = Inr dt" and "timestamp_int e dt = Inr ts"
  using assms
  by (cases r; cases "timestamp e (projr r)")
     (auto simp: start_ok_def timestamp_int_def split: time_result.splits)

lemma given_startE:
  assumes "given_start e s computed"
  obtains dt ts where "truthy s" and "fromisoformat e (the s) = Some dt"
      and "timestamp_int e dt = Inr ts"
    | dt ts where "\<not> truthy s" and "computed = Inr dt" and "timestamp_int e dt = Inr ts"
proof (cases "truthy s")
  case True
  then obtain v where v: "s = Some v" "v \<noteq> []"
    by (auto simp: truthy_def split: option.splits)
  with assms have "start_ok e (parsed_start e v)" by (simp add: given_start_def)
  then obtain dt ts where "parsed_start e v = Inr dt" "timestamp_int e dt = Inr ts"
    by (rule start_okE)
  then have "fromisoformat e (the s) = Some dt" "timestamp_int e dt = Inr ts"
    using v by (auto simp: parsed_start_def split: option.splits)
  with True that(1) show ?thesis by blast
next
  case False
  with assms have "start_ok e computed"
    by (auto simp: given_start_def truthy_def split: option.splits)
  then obtain dt ts where "computed = Inr dt" "timestamp_int e dt = Inr ts"
    by (rule start_okE)
  with False that(2) show ?thesis by blast
qed

lemma reaches_parses: "reaches_request e c \<Longrightarrow> \<exists>a0. parse_args e c = Inr a0"
  by (cases "subcommand c")
     (auto simp: reaches_request_def parse_args_def required_energy_def Let_def)

lemma exits2_func:
  assumes "parse_args e c = Inr a0" and "a = fill_energy_write_entity a0"
    and "unconfigured a" and "scheme_ok e a" and "reaches_request e c"
  shows "exits2 a (func (subcommand c) e a)"
proof -
  from assms(1,2) have ns: "namespace e c = a" by (simp add: namespace_Inr)
  note u = assms(3,4)
  show ?thesis
  proof (cases "subcommand c")
    case (Init wh)
    with u show ?thesis by (simp add: func_def cmd_init_def exits2_then exits2_init_helpers)
  next
    case Start
    with assms(5) ns have "convertible e (status_entity a) (PyStr (active_state a))"
      by (simp add: reaches_request_def status_convertible)
    with Start u show ?thesis
      by (simp add: func_def cmd_start_def exits2_then exits2_set_by_domain)
  next
    case (End d)
    with assms(1,2) have d: "duration_sec a = d" by (auto simp: parse_args_def)
    show ?thesis
    proof (cases d)
      case None
      with End assms(5) ns have "convertible e (status_entity a) (PyStr (inactive_state a))"
        by (simp add: reaches_request_def status_convertible)
      with End None d u show ?thesis
        by (simp add: func_def cmd_end_def io_left_unit exits2_then exits2_set_by_domain)
    next
      case (Some n)
      with End assms(5) ns have "start_ok e (sub_seconds (now e) n)"
        by (simp add: reaches_request_def)
      then obtain start ts where "sub_seconds (now e) n = Inr start" "timestamp_int e start = Inr ts"
        by (rule start_okE)
      with End Some d u show ?thesis
        by (simp add: func_def cmd_end_def io_left_unit exits2_then exits2_cycle)
    qed
  next
    case (Energy wh)
    with assms(1,2) obtain x where x: "energy_wh a = PyFloat x"
      by (auto simp: parse_args_def required_energy_def split: option.splits)
    from assms(2) obtain t where t: "energy_write_entity a = Some t"
      using fill_Some by blast
    have "convertible e t (PyFloat x)" by (simp add: convertible_def py_float_def)
    with Energy x t u show ?thesis
      by (simp add: func_def cmd_energy_def set_energy_eq exits2_then exits2_set_by_domain)
  next
    case (Split wh s)
    with assms(1,2) have s: "start_iso a = s"
      by (auto simp: parse_args_def required_energy_def split: option.splits)
    from Split assms(5) ns
    have "given_start e s (sub_seconds (local_midnight (now e)) (10 * 60))"
      by (simp add: reaches_request_def)
    then show ?thesis
    proof (cases rule: given_startE)
      case (1 dt ts)
      with Split s u show ?thesis
        by (simp add: func_def cmd_split_def Let_def parse_start_iso_def io_left_unit exits2_cycle)
    next
      case (2 dt ts)
      with Split s u show ?thesis
        by (simp add: func_def cmd_split_def Let_def io_left_unit exits2_cycle)
    qed
  next
    case (Scenario wh d s i)
    with assms(1,2) have f: "start_iso a = s" "init a = i"
      "duration_sec a = Some (case d of None \<Rightarrow> 1800 | Some n \<Rightarrow> n)"
      by (auto simp: parse_args_def required_energy_def split: option.splits)
    show ?thesis
    proof (cases i)
      case True
      with Scenario f u show ?thesis
        by (simp add: func_def cmd_scenario_def exits2_then exits2_init_helpers)
    next
      case False
      with Scenario assms(5) ns
      have "given_start e s (sub_seconds (now e) (case d of None \<Rightarrow> 1800 | Some n \<Rightarrow> n))"
        by (simp add: reaches_request_def)
      then show ?thesis
      proof (cases rule: given_startE)
        case (1 dt ts)
        with Scenario False f u show ?thesis
          by (simp add: func_def cmd_scenario_def parse_start_iso_def io_left_unit exits2_cycle)
      next
        case (2 dt ts)
        with Scenario False f u show ?thesis
          by (simp add: func_def cmd_scenario_def io_left_unit exits2_cycle)
      qed
    qed
  next
    case Dump
    with u show ?thesis
      by (simp add: func_def cmd_dump_def get_state_def exits2_bind exits2_request)
  qed
qed

section \<open>Requests in plain terms: facts\<close>

lemma connection_configured: "connection e a u t \<Longrightarrow> configured e a"
  by (auto simp: connection_def configured_def truthy_def stripped_rstrip split: option.splits)

lemma connection_api_request:
  "connection e a u t \<Longrightarrow>
   api_request a m p pl =
     \<lparr>req_method = m, req_url = u @ p, req_data = pl,
      req_headers = [(''Authorization'', ''Bearer '' @ t), (''Content-Type'', ''application/json'')],
      req_timeout = 30\<rparr>"
  by (auto simp: connection_def api_request_def mk_request_def stripped_rstrip split: option.splits)

lemma connection_service:
  "connection e a u t \<Longrightarrow> service_request a d s data = service_call u t d s data"
  by (simp add: service_request_def service_call_def connection_api_request)

lemma connection_state:
  "connection e a u t \<Longrightarrow> state_request a ent st = state_overwrite u t ent st"
  by (simp add: state_request_def state_overwrite_def connection_api_request)

lemma set_by_domain_dispatched:
  assumes "connection e a u t"
    and "domain_is ent ''input_number'' \<longrightarrow> py_float e v = Inr x"
  shows "\<exists>m p pl. set_by_domain e a ent v = request e a m p pl
           \<and> api_request a m p pl = dispatched u t ent x (py_str e v)"
proof (cases "domain_is ent ''input_number''")
  case True
  with assms(2) have "py_float e v = Inr x" by simp
  with True have "set_by_domain e a ent v =
      request e a ''POST'' (''/api/services/'' @ ''input_number'' @ ''/'' @ ''set_value'')
        (Some [(''entity_id'', PyStr ent), (''value'', PyFloat x)])"
    by (simp add: set_by_domain_def domain_iff set_input_number_def call_service_def io_left_unit)
  moreover from True have "api_request a ''POST'' (''/api/services/'' @ ''input_number'' @ ''/'' @ ''set_value'')
        (Some [(''entity_id'', PyStr ent), (''value'', PyFloat x)]) = dispatched u t ent x (py_str e v)"
    by (simp add: dispatched_def service_call_def connection_api_request[OF assms(1)])
  ultimately show ?thesis by blast
next
  case False
  then show ?thesis
    by (auto simp: set_by_domain_def domain_iff set_input_text_def set_input_select_def
        set_input_boolean_def set_state_def call_service_def Let_def dispatched_def lower_on
        service_call_def state_overwrite_def connection_api_request[OF assms(1)]
        simp del: append.simps)
qed

lemma requests_dispatched:
  assumes "connection e a u t"
    and "domain_is ent ''input_number'' \<longrightarrow> py_float e v = Inr x"
  shows "requests (snd (set_by_domain e a ent v w)) =
           requests w @ [dispatched u t ent x (py_str e v)]"
proof -
  from set_by_domain_dispatched[OF assms] obtain m p pl where
    "set_by_domain e a ent v = request e a m p pl"
    "api_request a m p pl = dispatched u t ent x (py_str e v)"
    by blast
  then show ?thesis
    by (simp add: request_configured[OF connection_configured[OF assms(1)]] handle_world)
qed

lemma succeeds_dispatched:
  assumes "connection e a u t" and "server_accepts e"
    and "domain_is ent ''input_number'' \<longrightarrow> py_float e v = Inr x"
  shows "succeeds (set_by_domain e a ent v) [dispatched u t ent x (py_str e v)]"
proof -
  from set_by_domain_dispatched[OF assms(1,3)] obtain m p pl where
    "set_by_domain e a ent v = request e a m p pl"
    "api_request a m p pl = dispatched u t ent x (py_str e v)"
    by blast
  with succeeds_request[OF connection_configured[OF assms(1)] assms(2), of m p pl]
  show ?thesis by simp
qed

lemma py_str_PyStr [simp]: "py_str e (PyStr s) = s"
  by (simp add: py_str_def)

lemma status_float:
  "float_of_str e s = Some x \<Longrightarrow> py_float e (PyStr s) = Inr x"
  by (simp add: py_float_def)

lemma reset_requests_plain:
  "connection e a u t \<Longrightarrow>
   reset_requests a =
     [service_call u t ''input_number'' ''set_value''
        [(''entity_id'', PyStr (lifetime_helper a)), (''value'', PyInt 0)],
      service_call u t ''input_number'' ''set_value''
        [(''entity_id'', PyStr (daily_active_helper a)), (''value'', PyInt 0)],
      service_call u t ''input_text'' ''set_value''
        [(''entity_id'', PyStr (durations_helper a)), (''value'', PyStr ''[]'')],
      service_call u t ''input_text'' ''set_value''
        [(''entity_id'', PyStr (last_processed_helper a)), (''value'', PyStr [])],
      service_call u t ''input_datetime'' ''set_datetime''
        [(''entity_id'', PyStr (cycle_start_helper a)), (''timestamp'', PyInt 0)]]"
  by (simp add: reset_requests_def connection_service)

lemma connection_demo:
  "base_url a = Some ''http://ha.local:8123/'' \<Longrightarrow> token a = Some ''secret'' \<Longrightarrow>
   connection demo_env a ''http://ha.local:8123'' ''secret''"
proof -
  have "stripped ''http://ha.local:8123/'' ''http://ha.local:8123''" by code_simp
  moreover assume "base_url a = Some ''http://ha.local:8123/''" "token a = Some ''secret''"
  ultimately show ?thesis
    using demo_url_type_known by (simp add: connection_def del: append.simps)
qed

lemma set_by_domain_rejects:
  "domain_is ent ''input_number'' \<Longrightarrow> py_float e v = Inl ex \<Longrightarrow>
   set_by_domain e a ent v w = (Inl ex, w)"
  by (simp add: set_by_domain_def domain_is_domain io_simps)

lemma run_uncaught_ValueError:
  "parse_args e c = Inr a0 \<Longrightarrow>
   func (subcommand c) e (fill_energy_write_entity a0) world0 = (Inl ValueError, w) \<Longrightarrow>
   run e c = (Uncaught ValueError, w)"
  by (simp add: run_def main_def except_RuntimeError_def)

lemma show_int_0: "show_int 0 = ''0''"
  by code_simp

lemma run_uncaught:
  "parse_args e c = Inr a0 \<Longrightarrow>
   func (subcommand c) e (fill_energy_write_entity a0) world0 = (Inl ex, w) \<Longrightarrow>
   ex \<in> {ValueError, TypeError, OverflowError, OSError, AttributeError} \<Longrightarrow>
   run e c = (Uncaught ex, w)"
  by (auto simp: run_def main_def except_RuntimeError_def)

lemma timestamp_int_error:
  "(\<forall>ts. timestamp e dt \<noteq> Seconds ts) \<Longrightarrow>
   \<exists>ex. timestamp_int e dt = Inl ex \<and> ex \<in> {ValueError, OverflowError, OSError}"
  by (cases "timestamp e dt") (simp_all add: timestamp_int_def)

lemma timestamp_int_Seconds:
  "timestamp e dt = Seconds ts \<Longrightarrow>
   timestamp_int e dt = Inr (if 0 \<le> ts then \<lfloor>ts\<rfloor> else \<lceil>ts\<rceil>)"
  by (simp add: timestamp_int_def py_int_def)

lemma requests_then_first_plain:
  assumes "connection e a u t" and "appends n"
  shows "\<exists>rest. requests (snd (io_then (call_service e a d s data) n world0)) =
           service_call u t d s data # rest"
  using requests_then_first[OF connection_configured[OF assms(1)] assms(2),
      of "''POST''" "''/api/services/'' @ d @ ''/'' @ s" "Some data"]
  by (simp add: call_service_def service_call_def connection_api_request[OF assms(1)])

lemma wall_seconds_fields:
  assumes "valid_datetime s"
  shows "wall_seconds s div 86400 = ordinal s"
    and "wall_seconds s mod 86400 div 3600 = hour s"
    and "wall_seconds s mod 86400 mod 3600 div 60 = minute s"
    and "wall_seconds s mod 86400 mod 60 = second s"
proof -
  define q where "q = minute s * 60 + second s"
  define r where "r = hour s * 3600 + q"
  have q: "0 \<le> q" "q < 3600"
    using assms by (simp_all add: q_def valid_datetime_def)
  have r: "0 \<le> r" "r < 86400"
    using assms q by (simp_all add: r_def valid_datetime_def)
  have w: "wall_seconds s = r + ordinal s * 86400"
    by (simp add: wall_seconds_def r_def q_def algebra_simps)
  show "wall_seconds s div 86400 = ordinal s"
    using r by (simp add: w)
  have m: "wall_seconds s mod 86400 = r"
    using r by (simp add: w)
  show "wall_seconds s mod 86400 div 3600 = hour s"
    using q by (simp add: m r_def)
  have m2: "r mod 3600 = q"
    using q by (simp add: r_def)
  show "wall_seconds s mod 86400 mod 3600 div 60 = minute s"
    using assms by (simp add: m m2 q_def valid_datetime_def)
  have "r = second s + (hour s * 60 + minute s) * 60"
    by (simp add: r_def q_def algebra_simps)
  then have "r mod 60 = second s mod 60"
    by (simp only: mod_mult_self1)
  then show "wall_seconds s mod 86400 mod 60 = second s"
    using assms by (simp add: m valid_datetime_def)
qed

lemma sub_seconds_unique:
  assumes "valid_datetime start" and "wall_seconds start = wall_seconds dt - n"
    and "microsecond start = microsecond dt" and "utcoffset start = utcoffset dt"
    and "fold start = 0"
  shows "sub_seconds dt n = Inr start"
proof -
  let ?T = "((ordinal dt * 24 + hour dt) * 60 + minute dt) * 60 + second dt - n"
  have T: "?T = wall_seconds start"
    using assms(2) by (simp add: wall_seconds_def)
  note f = wall_seconds_fields[OF assms(1)]
  have range: "0 < ordinal start" "ordinal start \<le> max_ordinal"
    using assms(1) by (simp_all add: valid_datetime_def max_ordinal_def)
  have "sub_seconds dt n =
      Inr (dt\<lparr>ordinal := ordinal start, hour := hour start, minute := minute start,
               second := second start, fold := 0\<rparr>)"
    unfolding sub_seconds_def Let_def T f
    using range by simp
  also have "dt\<lparr>ordinal := ordinal start, hour := hour start, minute := minute start,
               second := second start, fold := 0\<rparr> = start"
    using assms(3,4,5) by (simp add: datetime.equality)
  finally show ?thesis .
qed

section \<open>The request helper\<close>

text \<open>
  C9. The URL of a request is the base URL without its trailing slashes, followed by the
  path: every request that \<^verbatim>\<open>_request\<close> issues has this URL, with a base URL, a token and
  a scheme it issues exactly one, what is stripped is a run of slashes and what remains
  does not end in a slash, and a base URL with one more slash at its end gives the same
  call.
\<close>

theorem request_url:
  assumes "base_url a = Some b"
  shows "(configured e a \<longrightarrow> map req_url (issued (request e a m p pl)) = [rstrip_slash b @ p])
       \<and> (\<forall>r \<in> set (issued (request e a m p pl)). req_url r = rstrip_slash b @ p)
       \<and> (\<exists>n. b = rstrip_slash b @ replicate n CHR ''/'')
       \<and> (rstrip_slash b = [] \<or> last (rstrip_slash b) \<noteq> CHR ''/'')
       \<and> (b \<noteq> [] \<longrightarrow> request e (a\<lparr>base_url := Some (b @ ''/'')\<rparr>) m p pl = request e a m p pl)"
proof -
  have one: "configured e a \<longrightarrow> map req_url (issued (request e a m p pl)) = [rstrip_slash b @ p]"
    using assms by (simp add: issued_request_configured api_request_def mk_request_def)
  have none: "\<forall>r \<in> set (issued (request e a m p pl)). req_url r = rstrip_slash b @ p"
    using assms
    by (auto simp: issued_def request_def get_base_url_def get_token_def do_urlopen_def
        require_def world0_def Let_def handle_world mk_request_def io_simps
        split: option.splits)
  have "rstrip_slash (b @ ''/'') = rstrip_slash b"
    using rstrip_slash_trailing[of b 1] by simp
  then have same: "b \<noteq> [] \<longrightarrow>
      request e (a\<lparr>base_url := Some (b @ ''/'')\<rparr>) m p pl = request e a m p pl"
    using assms
    by (auto simp: request_def get_base_url_def get_token_def require_def Let_def fun_eq_iff
        io_simps)
  from one none same rstrip_slash_split[of b] rstrip_slash_last[of b] show ?thesis
    by blast
qed

theorem request_url_witness:
  "base_url demo_args = Some ''http://ha.local:8123/''
   \<and> configured demo_env demo_args
   \<and> map req_url (issued (request demo_env demo_args ''GET'' ''/api/states/sensor.x'' None)) =
        [''http://ha.local:8123/api/states/sensor.x'']
   \<and> request demo_env (demo_args\<lparr>base_url := Some ''http://ha.local:8123//''\<rparr>)
         ''GET'' ''/api/states/sensor.x'' None =
       request demo_env demo_args ''GET'' ''/api/states/sensor.x'' None"
proof -
  have b: "base_url demo_args = Some ''http://ha.local:8123/''" by code_simp
  have c: "configured demo_env demo_args" by (rule configured_demo; code_simp)
  have r: "rstrip_slash ''http://ha.local:8123/'' = ''http://ha.local:8123''" by code_simp
  from request_url[OF b, of demo_env "''GET''" "''/api/states/sensor.x''" None] b c r
  show ?thesis by simp
qed

text \<open>
  C10. A response with an empty body makes \<^verbatim>\<open>_request\<close> return \<^verbatim>\<open>None\<close> whatever
  \<^verbatim>\<open>json.loads\<close> would do with it; the body is decoded only when it is not empty, and
  then the result is that of \<^verbatim>\<open>json.loads\<close>.
\<close>

theorem empty_body_returns_None:
  assumes "configured e a" and "urlopen e (requests w) (api_request a m p pl) = HttpOk body"
  shows "fst (request (e\<lparr>json_loads := f\<rparr>) a m p pl w) =
           (if body = [] then Inr PyNone
            else (case f body of
                    Json v \<Rightarrow> Inr v
                  | JsonValueError \<Rightarrow> Inl ValueError
                  | JsonRecursionError msg \<Rightarrow> Inl (RuntimeError msg)))"
  using assms
  by (simp add: request_configured handle_response_def io_simps split: json_result.splits)

theorem empty_body_returns_None_witness:
  "configured demo_env demo_args
   \<and> urlopen demo_env (requests world0) (api_request demo_args ''GET'' ''/api/states/sensor.x'' None)
        = HttpOk []
   \<and> fst (request (demo_env\<lparr>json_loads := (\<lambda>s. JsonValueError)\<rparr>) demo_args ''GET''
             ''/api/states/sensor.x'' None world0) = Inr PyNone"
proof -
  have c: "configured demo_env demo_args" by (rule configured_demo; code_simp)
  have u: "urlopen demo_env (requests world0)
             (api_request demo_args ''GET'' ''/api/states/sensor.x'' None) = HttpOk []"
    by (simp add: demo_env_def)
  from empty_body_returns_None[OF c u, of "\<lambda>s. JsonValueError"] c u show ?thesis by simp
qed

section \<open>The entity-write dispatch\<close>

text \<open>
  C3, as the code has it. With a base URL that strips to \<open>u\<close> and a token \<open>t\<close>, for an
  entity of the domain \<^verbatim>\<open>input_number\<close>: writing a value that \<^verbatim>\<open>float\<close> converts (a
  float, a string that \<^verbatim>\<open>float\<close> parses, an integer, a boolean) issues exactly one
  request, the \<^verbatim>\<open>POST\<close> of the entity and the converted number to
  \<^verbatim>\<open>/api/services/input_number/set_value\<close> under \<open>u\<close>, with the bearer token, the JSON
  content type and the timeout of 30 seconds. A string that \<^verbatim>\<open>float\<close> rejects raises
  \<^verbatim>\<open>ValueError\<close>, an integer too large for a float \<^verbatim>\<open>OverflowError\<close>, and \<^verbatim>\<open>None\<close>, a
  list or a dict \<^verbatim>\<open>TypeError\<close>, each before any request. In every case at most one request
  is issued, and none is a direct state overwrite.
\<close>

theorem input_number_write:
  assumes "connection e a u t" and "domain_is entity_id ''input_number''"
  shows "(\<forall>x. v = PyFloat x
            \<or> (\<exists>s. v = PyStr s \<and> float_of_str e s = Some x)
            \<or> (\<exists>n. v = PyInt n \<and> \<bar>n\<bar> \<le> 2 ^ 53 \<and> x = Finite (of_int n))
            \<or> (\<exists>n. v = PyInt n \<and> 2 ^ 53 < \<bar>n\<bar> \<and> float_of_big_int e n = Some x)
            \<or> (\<exists>b. v = PyBool b \<and> x = Finite (if b then 1 else 0)) \<longrightarrow>
          requests (snd (set_by_domain e a entity_id v w)) =
            requests w @
              [\<lparr>req_method = ''POST'',
                req_url = u @ ''/api/services/input_number/set_value'',
                req_data = Some [(''entity_id'', PyStr entity_id), (''value'', PyFloat x)],
                req_headers = [(''Authorization'', ''Bearer '' @ t),
                               (''Content-Type'', ''application/json'')],
                req_timeout = 30\<rparr>])
       \<and> ((\<exists>s. v = PyStr s \<and> float_of_str e s = None) \<longrightarrow>
            set_by_domain e a entity_id v w = (Inl ValueError, w))
       \<and> ((\<exists>n. v = PyInt n \<and> 2 ^ 53 < \<bar>n\<bar> \<and> float_of_big_int e n = None) \<longrightarrow>
            set_by_domain e a entity_id v w = (Inl OverflowError, w))
       \<and> (v = PyNone \<or> (\<exists>xs. v = PyList xs) \<or> (\<exists>d. v = PyDict d) \<longrightarrow>
            set_by_domain e a entity_id v w = (Inl TypeError, w))
       \<and> (\<exists>rs. requests (snd (set_by_domain e a entity_id v w)) = requests w @ rs
             \<and> length rs \<le> 1 \<and> (\<forall>r \<in> set rs. \<not> is_state_overwrite u r))"
proof -
  let ?call = "\<lambda>x. \<lparr>req_method = ''POST'',
                req_url = u @ ''/api/services/input_number/set_value'',
                req_data = Some [(''entity_id'', PyStr entity_id), (''value'', PyFloat x)],
                req_headers = [(''Authorization'', ''Bearer '' @ t),
                               (''Content-Type'', ''application/json'')],
                req_timeout = 30\<rparr>"
  have d: "dispatched u t entity_id x st = ?call x" for x st
    using assms(2) by (simp add: dispatched_def service_call_def)
  have ok: "requests (snd (set_by_domain e a entity_id v w)) = requests w @ [?call x]"
    if "py_float e v = Inr x" for x
    using requests_dispatched[OF assms(1), of entity_id v x w] that d by simp
  have bad: "set_by_domain e a entity_id v w = (Inl ex, w)" if "py_float e v = Inl ex" for ex
    using that assms(2)
    by (simp add: set_by_domain_def domain_is_domain io_simps)
  have first: "requests (snd (set_by_domain e a entity_id v w)) = requests w @ [?call x]"
    if "v = PyFloat x
            \<or> (\<exists>s. v = PyStr s \<and> float_of_str e s = Some x)
            \<or> (\<exists>n. v = PyInt n \<and> \<bar>n\<bar> \<le> 2 ^ 53 \<and> x = Finite (of_int n))
            \<or> (\<exists>n. v = PyInt n \<and> 2 ^ 53 < \<bar>n\<bar> \<and> float_of_big_int e n = Some x)
            \<or> (\<exists>b. v = PyBool b \<and> x = Finite (if b then 1 else 0))" for x
  proof -
    from that have "py_float e v = Inr x"
      by (auto simp: py_float_def float_of_int_def)
    then show ?thesis by (rule ok)
  qed
  have second: "set_by_domain e a entity_id v w = (Inl ValueError, w)"
    if "\<exists>s. v = PyStr s \<and> float_of_str e s = None"
  proof -
    from that have "py_float e v = Inl ValueError" by (auto simp: py_float_def)
    then show ?thesis by (rule bad)
  qed
  have third: "set_by_domain e a entity_id v w = (Inl OverflowError, w)"
    if "\<exists>n. v = PyInt n \<and> 2 ^ 53 < \<bar>n\<bar> \<and> float_of_big_int e n = None"
  proof -
    from that have "py_float e v = Inl OverflowError"
      by (auto simp: py_float_def float_of_int_def)
    then show ?thesis by (rule bad)
  qed
  have fourth: "set_by_domain e a entity_id v w = (Inl TypeError, w)"
    if "v = PyNone \<or> (\<exists>xs. v = PyList xs) \<or> (\<exists>d. v = PyDict d)"
  proof -
    from that have "py_float e v = Inl TypeError" by (auto simp: py_float_def)
    then show ?thesis by (rule bad)
  qed
  have fifth: "\<exists>rs. requests (snd (set_by_domain e a entity_id v w)) = requests w @ rs
             \<and> length rs \<le> 1 \<and> (\<forall>r \<in> set rs. \<not> is_state_overwrite u r)"
  proof (cases "py_float e v")
    case (Inl ex)
    from bad[OF this] show ?thesis by simp
  next
    case (Inr x)
    have "\<not> is_state_overwrite u (?call x)"
      by (simp add: is_state_overwrite_def starts_with_def)
    with ok[OF Inr] show ?thesis by simp
  qed
  from first second third fourth fifth show ?thesis by blast
qed

theorem input_number_write_witness:
  "connection demo_env demo_args ''http://ha.local:8123'' ''secret''
   \<and> domain_is ''input_number.test_lifetime_energy'' ''input_number''
   \<and> float_of_str demo_env ''750'' = Some (Finite 750)
   \<and> requests (snd (set_by_domain demo_env demo_args ''input_number.test_lifetime_energy''
                      (PyStr ''750'') world0)) =
       [\<lparr>req_method = ''POST'',
         req_url = ''http://ha.local:8123/api/services/input_number/set_value'',
         req_data = Some [(''entity_id'', PyStr ''input_number.test_lifetime_energy''),
                          (''value'', PyFloat (Finite 750))],
         req_headers = [(''Authorization'', ''Bearer secret''),
                        (''Content-Type'', ''application/json'')],
         req_timeout = 30\<rparr>]"
proof -
  have c: "connection demo_env demo_args ''http://ha.local:8123'' ''secret''"
    by (rule connection_demo; code_simp)
  have d: "domain_is ''input_number.test_lifetime_energy'' ''input_number''" by code_simp
  have f: "float_of_str demo_env ''750'' = Some (Finite 750)" by code_simp
  have w: "requests world0 = []" by (simp add: world0_def)
  from input_number_write[OF c d, of "PyStr ''750''" world0] c d f w show ?thesis by simp
qed

text \<open>
  The claim as the spec words it, for any value, fails on the status label \<^verbatim>\<open>"off"\<close>
  written to a numeric helper: \<^verbatim>\<open>float("off")\<close> raises \<^verbatim>\<open>ValueError\<close> and no service
  call is issued.
\<close>

theorem input_number_write_counterexample:
  "configured demo_env demo_args \<and> domain ''input_number.test_status'' = ''input_number''
   \<and> set_by_domain demo_env demo_args ''input_number.test_status'' (PyStr ''off'') world0
       = (Inl ValueError, world0)
   \<and> requests world0 = []"
proof -
  have "configured demo_env demo_args" by (rule configured_demo; code_simp)
  moreover have "domain ''input_number.test_status'' = ''input_number''
   \<and> set_by_domain demo_env demo_args ''input_number.test_status'' (PyStr ''off'') world0
       = (Inl ValueError, world0)
   \<and> requests world0 = []"
    by code_simp
  ultimately show ?thesis by simp
qed

text \<open>
  C4. With a base URL that strips to \<open>u\<close> and a token \<open>t\<close>, for an entity whose domain is
  none of \<^verbatim>\<open>input_number\<close>, \<^verbatim>\<open>input_text\<close>, \<^verbatim>\<open>input_select\<close> and
  \<^verbatim>\<open>input_boolean\<close>: writing any value issues exactly one request, the \<^verbatim>\<open>POST\<close> of
  \<^verbatim>\<open>{"state": str(v)}\<close> to \<^verbatim>\<open>/api/states/<entity_id>\<close> under \<open>u\<close>, with the bearer token,
  the JSON content type and the timeout of 30 seconds. \<^verbatim>\<open>str(v)\<close> is the string itself,
  \<^verbatim>\<open>None\<close>, \<^verbatim>\<open>True\<close> or \<^verbatim>\<open>False\<close>, the decimal digits of an integer, and what
  \<^verbatim>\<open>repr\<close> gives for a float (\<^verbatim>\<open>-0.0\<close> for the negative zero) or a container. The
  request is no invocation of a service.
\<close>

theorem fallback_state_write:
  assumes "connection e a u t"
    and "\<not> domain_is entity_id ''input_number''" and "\<not> domain_is entity_id ''input_text''"
    and "\<not> domain_is entity_id ''input_select''" and "\<not> domain_is entity_id ''input_boolean''"
  shows "\<exists>st. requests (snd (set_by_domain e a entity_id v w)) =
            requests w @
              [\<lparr>req_method = ''POST'',
                req_url = u @ ''/api/states/'' @ entity_id,
                req_data = Some [(''state'', PyStr st)],
                req_headers = [(''Authorization'', ''Bearer '' @ t),
                               (''Content-Type'', ''application/json'')],
                req_timeout = 30\<rparr>]
          \<and> st = (case v of
                    PyStr s \<Rightarrow> s
                  | PyNone \<Rightarrow> ''None''
                  | PyBool b \<Rightarrow> (if b then ''True'' else ''False'')
                  | PyInt n \<Rightarrow> show_int n
                  | PyFloat x \<Rightarrow> float_repr e x
                  | PyList xs \<Rightarrow> container_repr e v
                  | PyDict d \<Rightarrow> container_repr e v)
          \<and> \<not> is_service_invocation u
                 \<lparr>req_method = ''POST'',
                  req_url = u @ ''/api/states/'' @ entity_id,
                  req_data = Some [(''state'', PyStr st)],
                  req_headers = [(''Authorization'', ''Bearer '' @ t),
                                 (''Content-Type'', ''application/json'')],
                  req_timeout = 30\<rparr>"
proof -
  have "dispatched u t entity_id x (py_str e v) =
      \<lparr>req_method = ''POST'',
       req_url = u @ ''/api/states/'' @ entity_id,
       req_data = Some [(''state'', PyStr (py_str e v))],
       req_headers = [(''Authorization'', ''Bearer '' @ t),
                      (''Content-Type'', ''application/json'')],
       req_timeout = 30\<rparr>" for x
    using assms(2-5) by (simp add: dispatched_def state_overwrite_def)
  with requests_dispatched[OF assms(1), of entity_id v undefined w] assms(2)
  show ?thesis
    by (simp add: py_str_def is_service_invocation_def starts_with_def)
qed

theorem fallback_state_write_witness:
  "connection demo_env demo_args ''http://ha.local:8123'' ''secret''
   \<and> \<not> domain_is ''sensor.test_energy_yesterday'' ''input_number''
   \<and> \<not> domain_is ''sensor.test_energy_yesterday'' ''input_text''
   \<and> \<not> domain_is ''sensor.test_energy_yesterday'' ''input_select''
   \<and> \<not> domain_is ''sensor.test_energy_yesterday'' ''input_boolean''
   \<and> float_repr demo_env NegZero = ''-0.0''
   \<and> requests (snd (set_by_domain demo_env demo_args ''sensor.test_energy_yesterday''
                      (PyFloat NegZero) world0)) =
       [\<lparr>req_method = ''POST'',
         req_url = ''http://ha.local:8123/api/states/sensor.test_energy_yesterday'',
         req_data = Some [(''state'', PyStr ''-0.0'')],
         req_headers = [(''Authorization'', ''Bearer secret''),
                        (''Content-Type'', ''application/json'')],
         req_timeout = 30\<rparr>]
   \<and> requests (snd (set_by_domain demo_env demo_args ''sensor.test_energy_yesterday''
                      (PyInt (- 750)) world0)) =
       [\<lparr>req_method = ''POST'',
         req_url = ''http://ha.local:8123/api/states/sensor.test_energy_yesterday'',
         req_data = Some [(''state'', PyStr ''-750'')],
         req_headers = [(''Authorization'', ''Bearer secret''),
                        (''Content-Type'', ''application/json'')],
         req_timeout = 30\<rparr>]"
proof -
  have c: "connection demo_env demo_args ''http://ha.local:8123'' ''secret''"
    by (rule connection_demo; code_simp)
  have d: "\<not> domain_is ''sensor.test_energy_yesterday'' ''input_number''"
    "\<not> domain_is ''sensor.test_energy_yesterday'' ''input_text''"
    "\<not> domain_is ''sensor.test_energy_yesterday'' ''input_select''"
    "\<not> domain_is ''sensor.test_energy_yesterday'' ''input_boolean''"
    by code_simp+
  have f: "float_repr demo_env NegZero = ''-0.0''" "show_int (- 750) = ''-750''" by code_simp+
  have w: "requests world0 = []" by (simp add: world0_def)
  from fallback_state_write[OF c d, of "PyFloat NegZero" world0]
    fallback_state_write[OF c d, of "PyInt (- 750)" world0] c d f w
  show ?thesis by simp
qed

section \<open>The subcommand \<^verbatim>\<open>init\<close>\<close>

text \<open>
  C8. With a base URL that strips to \<open>u\<close>, a token \<open>t\<close> and a server that accepts every
  request, \<^verbatim>\<open>init\<close> first issues, in this order, the five service calls that set the
  lifetime-energy and daily-active-seconds helpers to 0, the durations helper to
  \<^verbatim>\<open>"[]"\<close>, the last-processed-date helper to the empty string and the cycle-start helper
  to the timestamp 0, and then the write of the inactive value to the status entity as the
  dispatch rule has it (for a selector, the call of \<^verbatim>\<open>select_option\<close>). When the status
  entity is a numeric helper and \<^verbatim>\<open>float\<close> rejects the inactive value, the run ends after
  the five calls with the \<^verbatim>\<open>ValueError\<close> that nothing catches.
\<close>

theorem init_resets_helpers:
  assumes "subcommand c = Init wh" and "a = namespace e c"
    and "connection e a u t" and "server_accepts e"
  shows "((domain_is (status_entity a) ''input_number'' \<longrightarrow>
             float_of_str e (inactive_state a) = Some x) \<longrightarrow>
          (\<exists>rest. requests (snd (run e c)) =
            [service_call u t ''input_number'' ''set_value''
               [(''entity_id'', PyStr (lifetime_helper a)), (''value'', PyInt 0)],
             service_call u t ''input_number'' ''set_value''
               [(''entity_id'', PyStr (daily_active_helper a)), (''value'', PyInt 0)],
             service_call u t ''input_text'' ''set_value''
               [(''entity_id'', PyStr (durations_helper a)), (''value'', PyStr ''[]'')],
             service_call u t ''input_text'' ''set_value''
               [(''entity_id'', PyStr (last_processed_helper a)), (''value'', PyStr [])],
             service_call u t ''input_datetime'' ''set_datetime''
               [(''entity_id'', PyStr (cycle_start_helper a)), (''timestamp'', PyInt 0)],
             dispatched u t (status_entity a) x (inactive_state a)] @ rest))
    \<and> (domain_is (status_entity a) ''input_number'' \<and> float_of_str e (inactive_state a) = None \<longrightarrow>
          run e c =
            (Uncaught ValueError, world0\<lparr>requests :=
              [service_call u t ''input_number'' ''set_value''
                 [(''entity_id'', PyStr (lifetime_helper a)), (''value'', PyInt 0)],
               service_call u t ''input_number'' ''set_value''
                 [(''entity_id'', PyStr (daily_active_helper a)), (''value'', PyInt 0)],
               service_call u t ''input_text'' ''set_value''
                 [(''entity_id'', PyStr (durations_helper a)), (''value'', PyStr ''[]'')],
               service_call u t ''input_text'' ''set_value''
                 [(''entity_id'', PyStr (last_processed_helper a)), (''value'', PyStr [])],
               service_call u t ''input_datetime'' ''set_datetime''
                 [(''entity_id'', PyStr (cycle_start_helper a)), (''timestamp'', PyInt 0)]]\<rparr>))"
proof -
  let ?status = "set_by_domain e a (status_entity a) (PyStr (inactive_state a))"
  let ?tail = "if energy_wh a \<noteq> PyNone then io_then (set_energy e a (energy_wh a)) (io_return ())
               else io_return ()"
  let ?w = "world0\<lparr>requests := requests world0 @ reset_requests a\<rparr>"
  note cf = connection_configured[OF assms(3)]
  from assms(1) have p: "parse_args e c = Inr (common_args e c\<lparr>energy_wh :=
      (case wh of None \<Rightarrow> PyInt 0 | Some x \<Rightarrow> PyFloat x)\<rparr>)"
    by (rule parse_Init)
  have a: "a = fill_energy_write_entity (common_args e c\<lparr>energy_wh :=
      (case wh of None \<Rightarrow> PyInt 0 | Some x \<Rightarrow> PyFloat x)\<rparr>)"
    using assms(2) p by (simp add: namespace_Inr)
  have r: "requests (snd (run e c)) = requests (snd (cmd_init e a world0))"
    using run_requests[OF p] assms(1) a by (simp add: func_def)
  have i: "init_helpers e a (energy_wh a) world0 = io_then ?status ?tail ?w"
    by (rule init_helpers_reset[OF cf assms(4)])
  have first: "\<exists>rest. requests (snd (run e c)) =
      reset_requests a @ [dispatched u t (status_entity a) x (inactive_state a)] @ rest"
    if "domain_is (status_entity a) ''input_number'' \<longrightarrow> float_of_str e (inactive_state a) = Some x"
  proof -
    from that have "domain_is (status_entity a) ''input_number'' \<longrightarrow>
        py_float e (PyStr (inactive_state a)) = Inr x"
      by (simp add: status_float)
    from succeeds_dispatched[OF assms(3,4) this]
    have s: "succeeds ?status [dispatched u t (status_entity a) x (inactive_state a)]"
      by simp
    have "requests (snd (cmd_init e a world0)) = requests (snd (io_then ?status ?tail ?w))"
      by (simp add: cmd_init_def i io_simps split: prod.splits sum.splits)
    with r show ?thesis
      by (simp add: succeeds_then[OF s] energy_tail_new world0_def)
  qed
  have second: "run e c = (Uncaught ValueError, world0\<lparr>requests := reset_requests a\<rparr>)"
    if n: "domain_is (status_entity a) ''input_number''" "float_of_str e (inactive_state a) = None"
  proof -
    from n(2) have "py_float e (PyStr (inactive_state a)) = Inl ValueError"
      by (simp add: py_float_def)
    from set_by_domain_rejects[OF n(1) this]
    have "?status ?w = (Inl ValueError, ?w)" .
    then have "cmd_init e a world0 = (Inl ValueError, ?w)"
      by (simp add: cmd_init_def i io_simps)
    with run_uncaught_ValueError[OF p] assms(1) a show ?thesis
      by (simp add: func_def world0_def)
  qed
  from first second show ?thesis
    unfolding reset_requests_plain[OF assms(3)] by simp
qed

theorem init_resets_helpers_witness:
  "(let c = plain (Init None); a = namespace demo_env c in
    subcommand c = Init None
    \<and> connection demo_env a ''http://ha.local:8123'' ''secret'' \<and> server_accepts demo_env
    \<and> \<not> domain_is (status_entity a) ''input_number''
    \<and> (\<exists>rest. requests (snd (run demo_env c)) =
      [\<lparr>req_method = ''POST'',
        req_url = ''http://ha.local:8123/api/services/input_number/set_value'',
        req_data = Some [(''entity_id'', PyStr ''input_number.test_lifetime_energy''),
                         (''value'', PyInt 0)],
        req_headers = [(''Authorization'', ''Bearer secret''),
                       (''Content-Type'', ''application/json'')],
        req_timeout = 30\<rparr>,
       \<lparr>req_method = ''POST'',
        req_url = ''http://ha.local:8123/api/services/input_number/set_value'',
        req_data = Some [(''entity_id'', PyStr ''input_number.test_daily_active_seconds''),
                         (''value'', PyInt 0)],
        req_headers = [(''Authorization'', ''Bearer secret''),
                       (''Content-Type'', ''application/json'')],
        req_timeout = 30\<rparr>,
       \<lparr>req_method = ''POST'',
        req_url = ''http://ha.local:8123/api/services/input_text/set_value'',
        req_data = Some [(''entity_id'', PyStr ''input_text.test_cycle_durations''),
                         (''value'', PyStr ''[]'')],
        req_headers = [(''Authorization'', ''Bearer secret''),
                       (''Content-Type'', ''application/json'')],
        req_timeout = 30\<rparr>,
       \<lparr>req_method = ''POST'',
        req_url = ''http://ha.local:8123/api/services/input_text/set_value'',
        req_data = Some [(''entity_id'', PyStr ''input_text.test_last_processed_date''),
                         (''value'', PyStr [])],
        req_headers = [(''Authorization'', ''Bearer secret''),
                       (''Content-Type'', ''application/json'')],
        req_timeout = 30\<rparr>,
       \<lparr>req_method = ''POST'',
        req_url = ''http://ha.local:8123/api/services/input_datetime/set_datetime'',
        req_data = Some [(''entity_id'', PyStr ''input_datetime.test_cycle_start''),
                         (''timestamp'', PyInt 0)],
        req_headers = [(''Authorization'', ''Bearer secret''),
                       (''Content-Type'', ''application/json'')],
        req_timeout = 30\<rparr>,
       \<lparr>req_method = ''POST'',
        req_url = ''http://ha.local:8123/api/services/input_select/select_option'',
        req_data = Some [(''entity_id'', PyStr ''input_select.test_status''),
                         (''option'', PyStr ''off'')],
        req_headers = [(''Authorization'', ''Bearer secret''),
                       (''Content-Type'', ''application/json'')],
        req_timeout = 30\<rparr>] @ rest))"
proof -
  let ?c = "plain (Init None)"
  let ?a = "namespace demo_env ?c"
  have s: "subcommand ?c = Init None" by (simp add: plain_def)
  have c: "connection demo_env ?a ''http://ha.local:8123'' ''secret''"
    by (rule connection_demo; code_simp)
  have d: "\<not> domain_is (status_entity ?a) ''input_number''" by code_simp
  have f: "lifetime_helper ?a = ''input_number.test_lifetime_energy''"
    "daily_active_helper ?a = ''input_number.test_daily_active_seconds''"
    "durations_helper ?a = ''input_text.test_cycle_durations''"
    "last_processed_helper ?a = ''input_text.test_last_processed_date''"
    "cycle_start_helper ?a = ''input_datetime.test_cycle_start''"
    "status_entity ?a = ''input_select.test_status''"
    "inactive_state ?a = ''off''"
    by code_simp+
  have q: "dispatched ''http://ha.local:8123'' ''secret'' ''input_select.test_status'' (Finite 0) ''off'' =
       \<lparr>req_method = ''POST'',
        req_url = ''http://ha.local:8123/api/services/input_select/select_option'',
        req_data = Some [(''entity_id'', PyStr ''input_select.test_status''),
                         (''option'', PyStr ''off'')],
        req_headers = [(''Authorization'', ''Bearer secret''),
                       (''Content-Type'', ''application/json'')],
        req_timeout = 30\<rparr>"
    by code_simp
  from init_resets_helpers[OF s refl c demo_server_accepts, of "Finite 0"] d
  have "\<exists>rest. requests (snd (run demo_env ?c)) =
            [service_call ''http://ha.local:8123'' ''secret'' ''input_number'' ''set_value''
               [(''entity_id'', PyStr (lifetime_helper ?a)), (''value'', PyInt 0)],
             service_call ''http://ha.local:8123'' ''secret'' ''input_number'' ''set_value''
               [(''entity_id'', PyStr (daily_active_helper ?a)), (''value'', PyInt 0)],
             service_call ''http://ha.local:8123'' ''secret'' ''input_text'' ''set_value''
               [(''entity_id'', PyStr (durations_helper ?a)), (''value'', PyStr ''[]'')],
             service_call ''http://ha.local:8123'' ''secret'' ''input_text'' ''set_value''
               [(''entity_id'', PyStr (last_processed_helper ?a)), (''value'', PyStr [])],
             service_call ''http://ha.local:8123'' ''secret'' ''input_datetime'' ''set_datetime''
               [(''entity_id'', PyStr (cycle_start_helper ?a)), (''timestamp'', PyInt 0)],
             dispatched ''http://ha.local:8123'' ''secret'' (status_entity ?a) (Finite 0)
               (inactive_state ?a)] @ rest"
    by blast
  then have "\<exists>rest. requests (snd (run demo_env ?c)) =
      [\<lparr>req_method = ''POST'',
        req_url = ''http://ha.local:8123/api/services/input_number/set_value'',
        req_data = Some [(''entity_id'', PyStr ''input_number.test_lifetime_energy''),
                         (''value'', PyInt 0)],
        req_headers = [(''Authorization'', ''Bearer secret''),
                       (''Content-Type'', ''application/json'')],
        req_timeout = 30\<rparr>,
       \<lparr>req_method = ''POST'',
        req_url = ''http://ha.local:8123/api/services/input_number/set_value'',
        req_data = Some [(''entity_id'', PyStr ''input_number.test_daily_active_seconds''),
                         (''value'', PyInt 0)],
        req_headers = [(''Authorization'', ''Bearer secret''),
                       (''Content-Type'', ''application/json'')],
        req_timeout = 30\<rparr>,
       \<lparr>req_method = ''POST'',
        req_url = ''http://ha.local:8123/api/services/input_text/set_value'',
        req_data = Some [(''entity_id'', PyStr ''input_text.test_cycle_durations''),
                         (''value'', PyStr ''[]'')],
        req_headers = [(''Authorization'', ''Bearer secret''),
                       (''Content-Type'', ''application/json'')],
        req_timeout = 30\<rparr>,
       \<lparr>req_method = ''POST'',
        req_url = ''http://ha.local:8123/api/services/input_text/set_value'',
        req_data = Some [(''entity_id'', PyStr ''input_text.test_last_processed_date''),
                         (''value'', PyStr [])],
        req_headers = [(''Authorization'', ''Bearer secret''),
                       (''Content-Type'', ''application/json'')],
        req_timeout = 30\<rparr>,
       \<lparr>req_method = ''POST'',
        req_url = ''http://ha.local:8123/api/services/input_datetime/set_datetime'',
        req_data = Some [(''entity_id'', PyStr ''input_datetime.test_cycle_start''),
                         (''timestamp'', PyInt 0)],
        req_headers = [(''Authorization'', ''Bearer secret''),
                       (''Content-Type'', ''application/json'')],
        req_timeout = 30\<rparr>,
       \<lparr>req_method = ''POST'',
        req_url = ''http://ha.local:8123/api/services/input_select/select_option'',
        req_data = Some [(''entity_id'', PyStr ''input_select.test_status''),
                         (''option'', PyStr ''off'')],
        req_headers = [(''Authorization'', ''Bearer secret''),
                       (''Content-Type'', ''application/json'')],
        req_timeout = 30\<rparr>] @ rest"
    unfolding f q by (simp add: service_call_def)
  with s c d demo_server_accepts show ?thesis
    unfolding Let_def by blast
qed

text \<open>
  C1, as the code has it. The parser of \<^verbatim>\<open>init\<close> gives \<^verbatim>\<open>--energy-wh\<close> the default 0,
  so \<^verbatim>\<open>_init_helpers\<close> never sees \<^verbatim>\<open>None\<close>. With a base URL, a token, a server that
  accepts every request and an inactive value the status entity can take, the run of
  \<^verbatim>\<open>init\<close> issues seven requests and exits with 0: the five resets, the write of the
  inactive value to the status entity, and exactly one write to the energy write target,
  as the dispatch rule has it, of the value given with \<^verbatim>\<open>--energy-wh\<close>, or of 0 when
  none is given.
\<close>

theorem init_energy_write:
  assumes "subcommand c = Init wh" and "a = namespace e c"
    and "connection e a u t" and "server_accepts e"
    and "domain_is (status_entity a) ''input_number'' \<longrightarrow>
           float_of_str e (inactive_state a) = Some x"
    and "energy_write_entity a = Some target"
  shows "run e c =
    (Exit 0,
     \<lparr>requests =
        [service_call u t ''input_number'' ''set_value''
           [(''entity_id'', PyStr (lifetime_helper a)), (''value'', PyInt 0)],
         service_call u t ''input_number'' ''set_value''
           [(''entity_id'', PyStr (daily_active_helper a)), (''value'', PyInt 0)],
         service_call u t ''input_text'' ''set_value''
           [(''entity_id'', PyStr (durations_helper a)), (''value'', PyStr ''[]'')],
         service_call u t ''input_text'' ''set_value''
           [(''entity_id'', PyStr (last_processed_helper a)), (''value'', PyStr [])],
         service_call u t ''input_datetime'' ''set_datetime''
           [(''entity_id'', PyStr (cycle_start_helper a)), (''timestamp'', PyInt 0)],
         dispatched u t (status_entity a) x (inactive_state a),
         dispatched u t target
           (case wh of None \<Rightarrow> Finite 0 | Some y \<Rightarrow> y)
           (case wh of None \<Rightarrow> ''0'' | Some y \<Rightarrow> float_repr e y)],
      stdout = [''Initialized helpers and set status to inactive.''],
      stderr = []\<rparr>)"
proof -
  let ?status = "set_by_domain e a (status_entity a) (PyStr (inactive_state a))"
  let ?v = "case wh of None \<Rightarrow> PyInt 0 | Some y \<Rightarrow> PyFloat y"
  let ?x = "case wh of None \<Rightarrow> Finite 0 | Some y \<Rightarrow> y"
  let ?st = "case wh of None \<Rightarrow> ''0'' | Some y \<Rightarrow> float_repr e y"
  note cf = connection_configured[OF assms(3)]
  from assms(1) have p: "parse_args e c = Inr (common_args e c\<lparr>energy_wh := ?v\<rparr>)"
    by (simp add: parse_Init)
  have a: "a = fill_energy_write_entity (common_args e c\<lparr>energy_wh := ?v\<rparr>)"
    using assms(2) p by (simp add: namespace_Inr)
  then have wh: "energy_wh a = ?v" by simp
  have v: "?v \<noteq> PyNone" by (simp split: option.splits)
  have fl: "py_float e ?v = Inr ?x" "py_str e ?v = ?st"
    by (simp_all add: py_float_def float_of_int_def py_str_def show_int_0 split: option.splits)
  from succeeds_dispatched[OF assms(3,4), of target ?v ?x] fl
  have en: "succeeds (set_energy e a ?v) [dispatched u t target ?x ?st]"
    by (simp add: set_energy_eq[OF assms(6)])
  from assms(5) have "domain_is (status_entity a) ''input_number'' \<longrightarrow>
      py_float e (PyStr (inactive_state a)) = Inr x"
    by (simp add: status_float)
  from succeeds_dispatched[OF assms(3,4) this]
  have st: "succeeds ?status [dispatched u t (status_entity a) x (inactive_state a)]"
    by simp
  have "init_helpers e a ?v world0 =
      (Inr (), world0\<lparr>requests := reset_requests a
         @ [dispatched u t (status_entity a) x (inactive_state a), dispatched u t target ?x ?st]\<rparr>)"
    using v
    by (simp add: init_helpers_reset[OF cf assms(4)] succeeds_then[OF st] succeeds_then[OF en]
        io_simps(1) world0_def)
  then have "cmd_init e a world0 =
      (Inr (), world0\<lparr>requests := reset_requests a
         @ [dispatched u t (status_entity a) x (inactive_state a), dispatched u t target ?x ?st],
                      stdout := [''Initialized helpers and set status to inactive.'']\<rparr>)"
    by (simp add: cmd_init_def wh io_simps world0_def)
  with run_ok[OF p] assms(1) a
  have "run e c =
      (Exit 0, world0\<lparr>requests := reset_requests a
         @ [dispatched u t (status_entity a) x (inactive_state a), dispatched u t target ?x ?st],
                      stdout := [''Initialized helpers and set status to inactive.'']\<rparr>)"
    by (simp add: func_def)
  then show ?thesis
    unfolding reset_requests_plain[OF assms(3)] by (simp add: world0_def)
qed

theorem init_energy_write_witness:
  "(let c = (plain (Init (Some (Finite 750))))
              \<lparr>opt_energy_write_entity := Some ''input_number.test_energy''\<rparr>;
        a = namespace demo_env c in
    subcommand c = Init (Some (Finite 750))
    \<and> connection demo_env a ''http://ha.local:8123'' ''secret'' \<and> server_accepts demo_env
    \<and> \<not> domain_is (status_entity a) ''input_number''
    \<and> energy_sensor a = ''sensor.test_energy_yesterday''
    \<and> energy_write_entity a = Some ''input_number.test_energy''
    \<and> run demo_env c =
      (Exit 0,
       \<lparr>requests =
      [\<lparr>req_method = ''POST'',
        req_url = ''http://ha.local:8123/api/services/input_number/set_value'',
        req_data = Some [(''entity_id'', PyStr ''input_number.test_lifetime_energy''),
                         (''value'', PyInt 0)],
        req_headers = [(''Authorization'', ''Bearer secret''),
                       (''Content-Type'', ''application/json'')],
        req_timeout = 30\<rparr>,
       \<lparr>req_method = ''POST'',
        req_url = ''http://ha.local:8123/api/services/input_number/set_value'',
        req_data = Some [(''entity_id'', PyStr ''input_number.test_daily_active_seconds''),
                         (''value'', PyInt 0)],
        req_headers = [(''Authorization'', ''Bearer secret''),
                       (''Content-Type'', ''application/json'')],
        req_timeout = 30\<rparr>,
       \<lparr>req_method = ''POST'',
        req_url = ''http://ha.local:8123/api/services/input_text/set_value'',
        req_data = Some [(''entity_id'', PyStr ''input_text.test_cycle_durations''),
                         (''value'', PyStr ''[]'')],
        req_headers = [(''Authorization'', ''Bearer secret''),
                       (''Content-Type'', ''application/json'')],
        req_timeout = 30\<rparr>,
       \<lparr>req_method = ''POST'',
        req_url = ''http://ha.local:8123/api/services/input_text/set_value'',
        req_data = Some [(''entity_id'', PyStr ''input_text.test_last_processed_date''),
                         (''value'', PyStr [])],
        req_headers = [(''Authorization'', ''Bearer secret''),
                       (''Content-Type'', ''application/json'')],
        req_timeout = 30\<rparr>,
       \<lparr>req_method = ''POST'',
        req_url = ''http://ha.local:8123/api/services/input_datetime/set_datetime'',
        req_data = Some [(''entity_id'', PyStr ''input_datetime.test_cycle_start''),
                         (''timestamp'', PyInt 0)],
        req_headers = [(''Authorization'', ''Bearer secret''),
                       (''Content-Type'', ''application/json'')],
        req_timeout = 30\<rparr>,
       \<lparr>req_method = ''POST'',
        req_url = ''http://ha.local:8123/api/services/input_select/select_option'',
        req_data = Some [(''entity_id'', PyStr ''input_select.test_status''),
                         (''option'', PyStr ''off'')],
        req_headers = [(''Authorization'', ''Bearer secret''),
                       (''Content-Type'', ''application/json'')],
        req_timeout = 30\<rparr>,
       \<lparr>req_method = ''POST'',
        req_url = ''http://ha.local:8123/api/services/input_number/set_value'',
        req_data = Some [(''entity_id'', PyStr ''input_number.test_energy''),
                         (''value'', PyFloat (Finite 750))],
        req_headers = [(''Authorization'', ''Bearer secret''),
                       (''Content-Type'', ''application/json'')],
        req_timeout = 30\<rparr>],
        stdout = [''Initialized helpers and set status to inactive.''],
        stderr = []\<rparr>))"
proof -
  let ?c = "(plain (Init (Some (Finite 750))))
              \<lparr>opt_energy_write_entity := Some ''input_number.test_energy''\<rparr>"
  let ?a = "namespace demo_env ?c"
  have s: "subcommand ?c = Init (Some (Finite 750))" by (simp add: plain_def)
  have c: "connection demo_env ?a ''http://ha.local:8123'' ''secret''"
    by (rule connection_demo; code_simp)
  have d: "\<not> domain_is (status_entity ?a) ''input_number''" by code_simp
  have g: "energy_sensor ?a = ''sensor.test_energy_yesterday''" by code_simp
  have w: "energy_write_entity ?a = Some ''input_number.test_energy''" by code_simp
  have f: "lifetime_helper ?a = ''input_number.test_lifetime_energy''"
    "daily_active_helper ?a = ''input_number.test_daily_active_seconds''"
    "durations_helper ?a = ''input_text.test_cycle_durations''"
    "last_processed_helper ?a = ''input_text.test_last_processed_date''"
    "cycle_start_helper ?a = ''input_datetime.test_cycle_start''"
    "status_entity ?a = ''input_select.test_status''"
    "inactive_state ?a = ''off''"
    by code_simp+
  have q: "dispatched ''http://ha.local:8123'' ''secret'' ''input_select.test_status'' (Finite 0) ''off'' =
       \<lparr>req_method = ''POST'',
        req_url = ''http://ha.local:8123/api/services/input_select/select_option'',
        req_data = Some [(''entity_id'', PyStr ''input_select.test_status''),
                         (''option'', PyStr ''off'')],
        req_headers = [(''Authorization'', ''Bearer secret''),
                       (''Content-Type'', ''application/json'')],
        req_timeout = 30\<rparr>"
    "dispatched ''http://ha.local:8123'' ''secret'' ''input_number.test_energy'' (Finite 750)
        (float_repr demo_env (Finite 750)) =
       \<lparr>req_method = ''POST'',
        req_url = ''http://ha.local:8123/api/services/input_number/set_value'',
        req_data = Some [(''entity_id'', PyStr ''input_number.test_energy''),
                         (''value'', PyFloat (Finite 750))],
        req_headers = [(''Authorization'', ''Bearer secret''),
                       (''Content-Type'', ''application/json'')],
        req_timeout = 30\<rparr>"
    by code_simp+
  from d have h: "domain_is (status_entity ?a) ''input_number'' \<longrightarrow>
      float_of_str demo_env (inactive_state ?a) = Some (Finite 0)"
    by simp
  from init_energy_write[OF s refl c demo_server_accepts h w]
  have "run demo_env ?c =
    (Exit 0,
     \<lparr>requests =
        [service_call ''http://ha.local:8123'' ''secret'' ''input_number'' ''set_value''
           [(''entity_id'', PyStr (lifetime_helper ?a)), (''value'', PyInt 0)],
         service_call ''http://ha.local:8123'' ''secret'' ''input_number'' ''set_value''
           [(''entity_id'', PyStr (daily_active_helper ?a)), (''value'', PyInt 0)],
         service_call ''http://ha.local:8123'' ''secret'' ''input_text'' ''set_value''
           [(''entity_id'', PyStr (durations_helper ?a)), (''value'', PyStr ''[]'')],
         service_call ''http://ha.local:8123'' ''secret'' ''input_text'' ''set_value''
           [(''entity_id'', PyStr (last_processed_helper ?a)), (''value'', PyStr [])],
         service_call ''http://ha.local:8123'' ''secret'' ''input_datetime'' ''set_datetime''
           [(''entity_id'', PyStr (cycle_start_helper ?a)), (''timestamp'', PyInt 0)],
         dispatched ''http://ha.local:8123'' ''secret'' (status_entity ?a) (Finite 0)
           (inactive_state ?a),
         dispatched ''http://ha.local:8123'' ''secret'' ''input_number.test_energy''
           (Finite 750) (float_repr demo_env (Finite 750))],
      stdout = [''Initialized helpers and set status to inactive.''],
      stderr = []\<rparr>)"
    by simp
  then have "run demo_env ?c =
      (Exit 0,
       \<lparr>requests =
      [\<lparr>req_method = ''POST'',
        req_url = ''http://ha.local:8123/api/services/input_number/set_value'',
        req_data = Some [(''entity_id'', PyStr ''input_number.test_lifetime_energy''),
                         (''value'', PyInt 0)],
        req_headers = [(''Authorization'', ''Bearer secret''),
                       (''Content-Type'', ''application/json'')],
        req_timeout = 30\<rparr>,
       \<lparr>req_method = ''POST'',
        req_url = ''http://ha.local:8123/api/services/input_number/set_value'',
        req_data = Some [(''entity_id'', PyStr ''input_number.test_daily_active_seconds''),
                         (''value'', PyInt 0)],
        req_headers = [(''Authorization'', ''Bearer secret''),
                       (''Content-Type'', ''application/json'')],
        req_timeout = 30\<rparr>,
       \<lparr>req_method = ''POST'',
        req_url = ''http://ha.local:8123/api/services/input_text/set_value'',
        req_data = Some [(''entity_id'', PyStr ''input_text.test_cycle_durations''),
                         (''value'', PyStr ''[]'')],
        req_headers = [(''Authorization'', ''Bearer secret''),
                       (''Content-Type'', ''application/json'')],
        req_timeout = 30\<rparr>,
       \<lparr>req_method = ''POST'',
        req_url = ''http://ha.local:8123/api/services/input_text/set_value'',
        req_data = Some [(''entity_id'', PyStr ''input_text.test_last_processed_date''),
                         (''value'', PyStr [])],
        req_headers = [(''Authorization'', ''Bearer secret''),
                       (''Content-Type'', ''application/json'')],
        req_timeout = 30\<rparr>,
       \<lparr>req_method = ''POST'',
        req_url = ''http://ha.local:8123/api/services/input_datetime/set_datetime'',
        req_data = Some [(''entity_id'', PyStr ''input_datetime.test_cycle_start''),
                         (''timestamp'', PyInt 0)],
        req_headers = [(''Authorization'', ''Bearer secret''),
                       (''Content-Type'', ''application/json'')],
        req_timeout = 30\<rparr>,
       \<lparr>req_method = ''POST'',
        req_url = ''http://ha.local:8123/api/services/input_select/select_option'',
        req_data = Some [(''entity_id'', PyStr ''input_select.test_status''),
                         (''option'', PyStr ''off'')],
        req_headers = [(''Authorization'', ''Bearer secret''),
                       (''Content-Type'', ''application/json'')],
        req_timeout = 30\<rparr>,
       \<lparr>req_method = ''POST'',
        req_url = ''http://ha.local:8123/api/services/input_number/set_value'',
        req_data = Some [(''entity_id'', PyStr ''input_number.test_energy''),
                         (''value'', PyFloat (Finite 750))],
        req_headers = [(''Authorization'', ''Bearer secret''),
                       (''Content-Type'', ''application/json'')],
        req_timeout = 30\<rparr>],
        stdout = [''Initialized helpers and set status to inactive.''],
        stderr = []\<rparr>)"
    unfolding f q by (simp add: service_call_def)
  with s c d g w demo_server_accepts show ?thesis
    unfolding Let_def by blast
qed

text \<open>
  The claim as the spec words it fails for \<^verbatim>\<open>init\<close> without \<^verbatim>\<open>--energy-wh\<close>: the
  seventh request of the run overwrites the state of the energy write target with
  \<^verbatim>\<open>"0"\<close>.
\<close>

theorem init_default_energy_counterexample:
  "energy_write_entity (namespace demo_env (plain (Init None))) = Some ''sensor.test_energy_yesterday''
   \<and> length (requests (snd (run demo_env (plain (Init None))))) = 7
   \<and> requests (snd (run demo_env (plain (Init None)))) ! 6 =
        \<lparr>req_method = ''POST'',
         req_url = ''http://ha.local:8123/api/states/sensor.test_energy_yesterday'',
         req_data = Some [(''state'', PyStr ''0'')],
         req_headers = [(''Authorization'', ''Bearer secret''),
                        (''Content-Type'', ''application/json'')],
         req_timeout = 30\<rparr>"
  by code_simp

section \<open>Start times\<close>

text \<open>
  C5. For \<^verbatim>\<open>split\<close> without \<^verbatim>\<open>--start-iso\<close> (not given, or given empty), with
  \<^verbatim>\<open>--energy-wh\<close>, a base URL and a token, on a clock that shows a date after
  0001-01-01. The start is 23:50:00 on the day before the invocation day, in the time zone
  of the clock: the local midnight of the invocation day minus ten minutes on the wall
  clock. When \<^verbatim>\<open>timestamp\<close> converts the start, the first request of the run is the call of
  \<^verbatim>\<open>input_datetime/set_datetime\<close> for the cycle-start helper with the epoch seconds of
  the start, truncated to an integer. When \<^verbatim>\<open>timestamp\<close> raises, the run issues no
  request and ends with the status 1.
\<close>

theorem split_default_start:
  assumes "subcommand c = Split (Some x) s" and "s = None \<or> s = Some []"
    and "a = namespace e c" and "connection e a u t"
    and "1 < ordinal (now e)" and "ordinal (now e) \<le> 3652059"
    and "start = \<lparr>ordinal = ordinal (now e) - 1, hour = 23, minute = 50, second = 0,
                   microsecond = 0, utcoffset = utcoffset (now e), fold = 0\<rparr>"
  shows "wall_seconds start = ordinal (now e) * 86400 - 10 * 60
    \<and> (\<forall>ts. timestamp e start = Seconds ts \<longrightarrow>
          (\<exists>rest. requests (snd (run e c)) =
             service_call u t ''input_datetime'' ''set_datetime''
               [(''entity_id'', PyStr (cycle_start_helper a)),
                (''timestamp'', PyInt (if 0 \<le> ts then \<lfloor>ts\<rfloor> else \<lceil>ts\<rceil>))] # rest))
    \<and> ((\<forall>ts. timestamp e start \<noteq> Seconds ts) \<longrightarrow>
          requests (snd (run e c)) = [] \<and> exit_code (fst (run e c)) = 1)"
proof -
  let ?rest = "\<lambda>ts. io_then (set_cycle_start e a ts)
        (io_then (set_by_domain e a (status_entity a) (PyStr (active_state a)))
        (io_then (set_energy e a (energy_wh a))
           (print_out ''Set a pre-midnight start, set status active, and updated energy.'')))"
  from assms(1) have p: "parse_args e c =
      Inr (common_args e c\<lparr>energy_wh := PyFloat x, start_iso := s\<rparr>)"
    by (rule parse_Split)
  have a: "a = fill_energy_write_entity (common_args e c\<lparr>energy_wh := PyFloat x, start_iso := s\<rparr>)"
    using assms(3) p by (simp add: namespace_Inr)
  then have s: "start_iso a = s" by simp
  from assms(2) have t: "\<not> truthy s" by (auto simp: truthy_def)
  have r: "requests (snd (run e c)) = requests (snd (cmd_split e a world0))"
    using run_requests[OF p] assms(1) a by (simp add: func_def)
  have m: "sub_seconds (local_midnight (now e)) (10 * 60) = Inr start"
    using midnight_minus_ten[of "now e"] assms(5,6,7) by (simp add: max_ordinal_def)
  have cs: "cmd_split e a = io_bind (io_lift (timestamp_int e start)) ?rest"
    using t s m by (simp add: cmd_split_def Let_def io_left_unit)
  have first: "wall_seconds start = ordinal (now e) * 86400 - 10 * 60"
    using assms(7) by (simp add: wall_seconds_def)
  have second: "\<exists>rest. requests (snd (run e c)) =
             service_call u t ''input_datetime'' ''set_datetime''
               [(''entity_id'', PyStr (cycle_start_helper a)),
                (''timestamp'', PyInt (if 0 \<le> ts then \<lfloor>ts\<rfloor> else \<lceil>ts\<rceil>))] # rest"
    if "timestamp e start = Seconds ts" for ts
  proof -
    have "appends (io_then (set_by_domain e a (status_entity a) (PyStr (active_state a)))
        (io_then (set_energy e a (energy_wh a))
           (print_out ''Set a pre-midnight start, set status active, and updated energy.'')))"
      by (simp add: appends_then)
    from requests_then_first_plain[OF assms(4) this] r cs timestamp_int_Seconds[OF that]
    show ?thesis
      by (simp add: io_left_unit set_cycle_start_def)
  qed
  have third: "requests (snd (run e c)) = [] \<and> exit_code (fst (run e c)) = 1"
    if "\<forall>ts. timestamp e start \<noteq> Seconds ts"
  proof -
    from timestamp_int_error[OF that] obtain ex where
      ex: "timestamp_int e start = Inl ex" "ex \<in> {ValueError, OverflowError, OSError}"
      by blast
    then have "cmd_split e a world0 = (Inl ex, world0)"
      by (simp add: cs io_simps)
    with run_uncaught[OF p, of ex world0] assms(1) a ex(2)
    have "run e c = (Uncaught ex, world0)"
      by (auto simp: func_def)
    then show ?thesis by (simp add: world0_def)
  qed
  from first second third show ?thesis by blast
qed

theorem split_default_start_witness:
  "(let c = plain (Split (Some (Finite 900)) None); a = namespace demo_env c;
        start = \<lparr>ordinal = 739006, hour = 23, minute = 50, second = 0, microsecond = 0,
                 utcoffset = None, fold = 0\<rparr> in
    subcommand c = Split (Some (Finite 900)) None
    \<and> connection demo_env a ''http://ha.local:8123'' ''secret''
    \<and> ordinal (now demo_env) = 739007 \<and> utcoffset (now demo_env) = None
    \<and> timestamp demo_env start = Seconds 1714521000
    \<and> wall_seconds start = 739007 * 86400 - 10 * 60
    \<and> (\<exists>rest. requests (snd (run demo_env c)) =
          \<lparr>req_method = ''POST'',
           req_url = ''http://ha.local:8123/api/services/input_datetime/set_datetime'',
           req_data = Some [(''entity_id'', PyStr ''input_datetime.test_cycle_start''),
                            (''timestamp'', PyInt 1714521000)],
           req_headers = [(''Authorization'', ''Bearer secret''),
                          (''Content-Type'', ''application/json'')],
           req_timeout = 30\<rparr> # rest))"
proof -
  let ?c = "plain (Split (Some (Finite 900)) None)"
  let ?a = "namespace demo_env ?c"
  let ?start = "\<lparr>ordinal = 739006, hour = 23, minute = 50, second = 0, microsecond = 0,
                 utcoffset = None, fold = 0\<rparr>"
  have s: "subcommand ?c = Split (Some (Finite 900)) None" by (simp add: plain_def)
  have c: "connection demo_env ?a ''http://ha.local:8123'' ''secret''"
    by (rule connection_demo; code_simp)
  have o: "ordinal (now demo_env) = 739007" "utcoffset (now demo_env) = None"
    by code_simp+
  have o': "1 < ordinal (now demo_env)" "ordinal (now demo_env) \<le> 3652059"
    by (simp_all add: o)
  have st: "?start = \<lparr>ordinal = ordinal (now demo_env) - 1, hour = 23, minute = 50, second = 0,
                   microsecond = 0, utcoffset = utcoffset (now demo_env), fold = 0\<rparr>"
    by (simp add: o)
  have h: "cycle_start_helper ?a = ''input_datetime.test_cycle_start''" by code_simp
  have ts: "timestamp demo_env ?start = Seconds 1714521000"
    by code_simp
  from split_default_start[OF s disjI1[OF refl] refl c o' st] s c o h ts
  show ?thesis unfolding Let_def by (simp add: service_call_def)
qed

text \<open>
  C6. For \<^verbatim>\<open>end\<close>, with a base URL, a token, a server that accepts every request and
  an inactive value the status entity can take. Without \<^verbatim>\<open>--duration-sec\<close> the run issues
  one request, the write of the inactive value to the status entity as the dispatch rule
  has it. With a duration of \<open>n\<close> seconds (3600 is one), when \<open>start\<close> is the date and time
  \<open>n\<close> seconds before the invocation time on the wall clock, with the microsecond and the
  time zone of the invocation time, and \<^verbatim>\<open>timestamp\<close> converts it, the run issues two
  requests: first the call of \<^verbatim>\<open>input_datetime/set_datetime\<close> for the cycle-start helper
  with the epoch seconds of \<open>start\<close> truncated to an integer, then the same write of the
  inactive value. Both runs print the new status and exit with 0.
\<close>

theorem end_cycle:
  assumes "subcommand c = End d" and "a = namespace e c"
    and "connection e a u t" and "server_accepts e"
    and "domain_is (status_entity a) ''input_number'' \<longrightarrow>
           float_of_str e (inactive_state a) = Some x"
  shows "(d = None \<longrightarrow>
           run e c =
             (Exit 0,
              \<lparr>requests = [dispatched u t (status_entity a) x (inactive_state a)],
               stdout = [''Set status to '' @ inactive_state a @ ''.''],
               stderr = []\<rparr>))
    \<and> (\<forall>n start ts.
          d = Some n \<and> valid_datetime start
          \<and> wall_seconds start = wall_seconds (now e) - n
          \<and> microsecond start = microsecond (now e) \<and> utcoffset start = utcoffset (now e)
          \<and> fold start = 0 \<and> timestamp e start = Seconds ts \<longrightarrow>
           run e c =
             (Exit 0,
              \<lparr>requests =
                 [service_call u t ''input_datetime'' ''set_datetime''
                    [(''entity_id'', PyStr (cycle_start_helper a)),
                     (''timestamp'', PyInt (if 0 \<le> ts then \<lfloor>ts\<rfloor> else \<lceil>ts\<rceil>))],
                  dispatched u t (status_entity a) x (inactive_state a)],
               stdout = [''Set status to '' @ inactive_state a @ ''.''],
               stderr = []\<rparr>))
    \<and> (\<forall>n start.
          d = Some n \<and> valid_datetime start
          \<and> wall_seconds start = wall_seconds (now e) - n
          \<and> microsecond start = microsecond (now e) \<and> utcoffset start = utcoffset (now e)
          \<and> fold start = 0 \<and> (\<forall>ts. timestamp e start \<noteq> Seconds ts) \<longrightarrow>
           requests (snd (run e c)) = [] \<and> exit_code (fst (run e c)) = 1)"
proof -
  let ?status = "set_by_domain e a (status_entity a) (PyStr (inactive_state a))"
  let ?tail = "io_then ?status (print_out (''Set status to '' @ inactive_state a @ ''.''))"
  let ?status_call = "dispatched u t (status_entity a) x (inactive_state a)"
  note cf = connection_configured[OF assms(3)]
  from assms(1) have p: "parse_args e c = Inr (common_args e c\<lparr>duration_sec := d\<rparr>)"
    by (rule parse_End)
  have a: "a = fill_energy_write_entity (common_args e c\<lparr>duration_sec := d\<rparr>)"
    using assms(2) p by (simp add: namespace_Inr)
  then have d: "duration_sec a = d" by simp
  from assms(5) have "domain_is (status_entity a) ''input_number'' \<longrightarrow>
      py_float e (PyStr (inactive_state a)) = Inr x"
    by (simp add: status_float)
  from succeeds_dispatched[OF assms(3,4) this]
  have st: "succeeds ?status [?status_call]"
    by simp
  have tail: "?tail w = (Inr (), w\<lparr>requests := requests w @ [?status_call],
      stdout := stdout w @ [''Set status to '' @ inactive_state a @ ''.'']\<rparr>)" for w
    by (simp add: succeeds_then[OF st] io_simps(6))
  have none: "run e c = (Exit 0, \<lparr>requests = [?status_call],
               stdout = [''Set status to '' @ inactive_state a @ ''.''], stderr = []\<rparr>)"
    if "d = None"
  proof -
    from that d have "cmd_end e a world0 = ?tail world0"
      by (simp add: cmd_end_def io_left_unit)
    then have "cmd_end e a world0 = (Inr (), \<lparr>requests = [?status_call],
               stdout = [''Set status to '' @ inactive_state a @ ''.''], stderr = []\<rparr>)"
      unfolding tail by (simp add: world0_def)
    with run_ok[OF p, of "()"] assms(1) a show ?thesis
      by (simp add: func_def)
  qed
  have some: "run e c =
             (Exit 0,
              \<lparr>requests =
                 [service_call u t ''input_datetime'' ''set_datetime''
                    [(''entity_id'', PyStr (cycle_start_helper a)),
                     (''timestamp'', PyInt (if 0 \<le> ts then \<lfloor>ts\<rfloor> else \<lceil>ts\<rceil>))],
                  ?status_call],
               stdout = [''Set status to '' @ inactive_state a @ ''.''],
               stderr = []\<rparr>)"
    if n: "d = Some n" "valid_datetime start" "wall_seconds start = wall_seconds (now e) - n"
      "microsecond start = microsecond (now e)" "utcoffset start = utcoffset (now e)"
      "fold start = 0" "timestamp e start = Seconds ts" for n start ts
  proof -
    let ?ts = "if 0 \<le> ts then \<lfloor>ts\<rfloor> else \<lceil>ts\<rceil>"
    let ?cyc = "service_request a ''input_datetime'' ''set_datetime''
                  [(''entity_id'', PyStr (cycle_start_helper a)), (''timestamp'', PyInt ?ts)]"
    from sub_seconds_unique[OF n(2-6)] have s: "sub_seconds (now e) n = Inr start" .
    have "cmd_end e a world0 =
        io_then (io_then (set_cycle_start e a ?ts) (io_return ())) ?tail world0"
      using d n(1) s timestamp_int_Seconds[OF n(7)] by (simp add: cmd_end_def io_left_unit)
    then have "cmd_end e a world0 = ?tail (world0\<lparr>requests := requests world0 @ [?cyc]\<rparr>)"
      by (simp add: succeeds_then[OF succeeds_set_cycle_start[OF cf assms(4)]])
    then have "cmd_end e a world0 =
             (Inr (),
              \<lparr>requests =
                 [service_call u t ''input_datetime'' ''set_datetime''
                    [(''entity_id'', PyStr (cycle_start_helper a)), (''timestamp'', PyInt ?ts)],
                  ?status_call],
               stdout = [''Set status to '' @ inactive_state a @ ''.''],
               stderr = []\<rparr>)"
      unfolding tail by (simp add: world0_def connection_service[OF assms(3)])
    with run_ok[OF p, of "()"] assms(1) a show ?thesis
      by (simp add: func_def)
  qed
  have fails: "requests (snd (run e c)) = [] \<and> exit_code (fst (run e c)) = 1"
    if n: "d = Some n" "valid_datetime start" "wall_seconds start = wall_seconds (now e) - n"
      "microsecond start = microsecond (now e)" "utcoffset start = utcoffset (now e)"
      "fold start = 0" "\<forall>ts. timestamp e start \<noteq> Seconds ts" for n start
  proof -
    from sub_seconds_unique[OF n(2-6)] have s: "sub_seconds (now e) n = Inr start" .
    from timestamp_int_error[OF n(7)] obtain ex where
      ex: "timestamp_int e start = Inl ex" "ex \<in> {ValueError, OverflowError, OSError}"
      by blast
    have "cmd_end e a world0 = (Inl ex, world0)"
      using d n(1) s ex(1) by (simp add: cmd_end_def io_left_unit io_simps)
    with run_uncaught[OF p, of ex world0] assms(1) a ex(2)
    have "run e c = (Uncaught ex, world0)"
      by (auto simp: func_def)
    then show ?thesis by (simp add: world0_def)
  qed
  from none some fails show ?thesis by blast
qed

theorem end_cycle_witness:
  "(let c = plain (End (Some 3600)); a = namespace demo_env c;
        start = \<lparr>ordinal = 739007, hour = 13, minute = 30, second = 15, microsecond = 250000,
                 utcoffset = None, fold = 0\<rparr> in
    subcommand c = End (Some 3600)
    \<and> connection demo_env a ''http://ha.local:8123'' ''secret'' \<and> server_accepts demo_env
    \<and> \<not> domain_is (status_entity a) ''input_number''
    \<and> now demo_env = \<lparr>ordinal = 739007, hour = 14, minute = 30, second = 15,
                        microsecond = 250000, utcoffset = None, fold = 0\<rparr>
    \<and> valid_datetime start \<and> wall_seconds start = wall_seconds (now demo_env) - 3600
    \<and> timestamp demo_env start = Seconds (6858280861 / 4)
    \<and> run demo_env c =
         (Exit 0,
          \<lparr>requests =
             [\<lparr>req_method = ''POST'',
               req_url = ''http://ha.local:8123/api/services/input_datetime/set_datetime'',
               req_data = Some [(''entity_id'', PyStr ''input_datetime.test_cycle_start''),
                                (''timestamp'', PyInt 1714570215)],
               req_headers = [(''Authorization'', ''Bearer secret''),
                              (''Content-Type'', ''application/json'')],
               req_timeout = 30\<rparr>,
              \<lparr>req_method = ''POST'',
               req_url = ''http://ha.local:8123/api/services/input_select/select_option'',
               req_data = Some [(''entity_id'', PyStr ''input_select.test_status''),
                                (''option'', PyStr ''off'')],
               req_headers = [(''Authorization'', ''Bearer secret''),
                              (''Content-Type'', ''application/json'')],
               req_timeout = 30\<rparr>],
           stdout = [''Set status to off.''], stderr = []\<rparr>)
    \<and> run demo_env (plain (End None)) =
         (Exit 0,
          \<lparr>requests =
             [\<lparr>req_method = ''POST'',
               req_url = ''http://ha.local:8123/api/services/input_select/select_option'',
               req_data = Some [(''entity_id'', PyStr ''input_select.test_status''),
                                (''option'', PyStr ''off'')],
               req_headers = [(''Authorization'', ''Bearer secret''),
                              (''Content-Type'', ''application/json'')],
               req_timeout = 30\<rparr>],
           stdout = [''Set status to off.''], stderr = []\<rparr>))"
proof -
  let ?c = "plain (End (Some 3600))"
  let ?a = "namespace demo_env ?c"
  let ?c' = "plain (End None)"
  let ?a' = "namespace demo_env ?c'"
  let ?start = "\<lparr>ordinal = 739007, hour = 13, minute = 30, second = 15, microsecond = 250000,
                 utcoffset = None, fold = 0\<rparr>"
  have s: "subcommand ?c = End (Some 3600)" by (simp add: plain_def)
  have s': "subcommand ?c' = End None" by (simp add: plain_def)
  have c: "connection demo_env ?a ''http://ha.local:8123'' ''secret''"
    by (rule connection_demo; code_simp)
  have c': "connection demo_env ?a' ''http://ha.local:8123'' ''secret''"
    by (rule connection_demo; code_simp)
  have d: "\<not> domain_is (status_entity ?a) ''input_number''" by code_simp
  have d': "\<not> domain_is (status_entity ?a') ''input_number''" by code_simp
  have n: "now demo_env = \<lparr>ordinal = 739007, hour = 14, minute = 30, second = 15,
                        microsecond = 250000, utcoffset = None, fold = 0\<rparr>"
    by (simp add: demo_env_def)
  have v: "valid_datetime ?start" by code_simp
  have w: "wall_seconds ?start = wall_seconds (now demo_env) - 3600"
    by (simp add: n wall_seconds_def)
  have m: "microsecond ?start = microsecond (now demo_env)"
    "utcoffset ?start = utcoffset (now demo_env)" "fold ?start = 0"
    by (simp_all add: n)
  have ts: "timestamp demo_env ?start = Seconds (6858280861 / 4)"
    by code_simp
  have tr: "(if (0::rat) \<le> 6858280861 / 4 then \<lfloor>6858280861 / 4 :: rat\<rfloor>
             else \<lceil>6858280861 / 4 :: rat\<rceil>) = 1714570215"
    by code_simp
  have f: "cycle_start_helper ?a = ''input_datetime.test_cycle_start''"
    "status_entity ?a = ''input_select.test_status''" "inactive_state ?a = ''off''"
    "status_entity ?a' = ''input_select.test_status''" "inactive_state ?a' = ''off''"
    by code_simp+
  have q: "dispatched ''http://ha.local:8123'' ''secret'' ''input_select.test_status'' (Finite 0) ''off'' =
       \<lparr>req_method = ''POST'',
        req_url = ''http://ha.local:8123/api/services/input_select/select_option'',
        req_data = Some [(''entity_id'', PyStr ''input_select.test_status''),
                         (''option'', PyStr ''off'')],
        req_headers = [(''Authorization'', ''Bearer secret''),
                       (''Content-Type'', ''application/json'')],
        req_timeout = 30\<rparr>"
    by code_simp
  from d have h: "domain_is (status_entity ?a) ''input_number'' \<longrightarrow>
      float_of_str demo_env (inactive_state ?a) = Some (Finite 0)"
    by simp
  from d' have h': "domain_is (status_entity ?a') ''input_number'' \<longrightarrow>
      float_of_str demo_env (inactive_state ?a') = Some (Finite 0)"
    by simp
  from end_cycle[OF s refl c demo_server_accepts h] v w m ts
  have "run demo_env ?c =
             (Exit 0,
              \<lparr>requests =
                 [service_call ''http://ha.local:8123'' ''secret'' ''input_datetime'' ''set_datetime''
                    [(''entity_id'', PyStr (cycle_start_helper ?a)),
                     (''timestamp'', PyInt (if (0::rat) \<le> 6858280861 / 4
                        then \<lfloor>6858280861 / 4 :: rat\<rfloor> else \<lceil>6858280861 / 4 :: rat\<rceil>))],
                  dispatched ''http://ha.local:8123'' ''secret'' (status_entity ?a) (Finite 0)
                    (inactive_state ?a)],
               stdout = [''Set status to '' @ inactive_state ?a @ ''.''],
               stderr = []\<rparr>)"
    by blast
  then have one: "run demo_env ?c =
         (Exit 0,
          \<lparr>requests =
             [\<lparr>req_method = ''POST'',
               req_url = ''http://ha.local:8123/api/services/input_datetime/set_datetime'',
               req_data = Some [(''entity_id'', PyStr ''input_datetime.test_cycle_start''),
                                (''timestamp'', PyInt 1714570215)],
               req_headers = [(''Authorization'', ''Bearer secret''),
                              (''Content-Type'', ''application/json'')],
               req_timeout = 30\<rparr>,
              \<lparr>req_method = ''POST'',
               req_url = ''http://ha.local:8123/api/services/input_select/select_option'',
               req_data = Some [(''entity_id'', PyStr ''input_select.test_status''),
                                (''option'', PyStr ''off'')],
               req_headers = [(''Authorization'', ''Bearer secret''),
                              (''Content-Type'', ''application/json'')],
               req_timeout = 30\<rparr>],
           stdout = [''Set status to off.''], stderr = []\<rparr>)"
    unfolding f q tr by (simp add: service_call_def)
  from end_cycle[OF s' refl c' demo_server_accepts h']
  have "run demo_env ?c' =
             (Exit 0,
              \<lparr>requests = [dispatched ''http://ha.local:8123'' ''secret'' (status_entity ?a')
                              (Finite 0) (inactive_state ?a')],
               stdout = [''Set status to '' @ inactive_state ?a' @ ''.''],
               stderr = []\<rparr>)"
    by blast
  then have two: "run demo_env ?c' =
         (Exit 0,
          \<lparr>requests =
             [\<lparr>req_method = ''POST'',
               req_url = ''http://ha.local:8123/api/services/input_select/select_option'',
               req_data = Some [(''entity_id'', PyStr ''input_select.test_status''),
                                (''option'', PyStr ''off'')],
               req_headers = [(''Authorization'', ''Bearer secret''),
                              (''Content-Type'', ''application/json'')],
               req_timeout = 30\<rparr>],
           stdout = [''Set status to off.''], stderr = []\<rparr>)"
    unfolding f q by simp
  from s c d n v w ts one two demo_server_accepts show ?thesis
    unfolding Let_def by blast
qed

text \<open>
  C2, as the code has it. For \<^verbatim>\<open>split\<close>, and for \<^verbatim>\<open>scenario\<close> without \<^verbatim>\<open>--init\<close>,
  called with \<^verbatim>\<open>--energy-wh\<close> and a non-empty \<^verbatim>\<open>--start-iso\<close> that
  \<^verbatim>\<open>fromisoformat\<close> rejects: the run issues no request, prints the message that names
  the value to standard error, and exits with 1.
\<close>

theorem invalid_start_iso:
  assumes "subcommand c = Split (Some x) (Some s) \<or> subcommand c = Scenario (Some x) d (Some s) False"
    and "s \<noteq> []" and "fromisoformat e s = None"
  shows "run e c = (Exit 1, world0\<lparr>stderr := [''Invalid --start-iso value: '' @ s]\<rparr>)"
  using assms
  by (auto simp: run_def main_def parse_args_def required_energy_def func_def cmd_split_def
      cmd_scenario_def parse_start_iso_def except_RuntimeError_def fill_energy_write_entity_def
      truthy_def io_simps world0_def Let_def)

theorem invalid_start_iso_witness:
  "(subcommand (plain (Split (Some (Finite 900)) (Some ''not-a-date'')))
      = Split (Some (Finite 900)) (Some ''not-a-date'')
    \<and> ''not-a-date'' \<noteq> [] \<and> fromisoformat demo_env ''not-a-date'' = None)
   \<and> run demo_env (plain (Split (Some (Finite 900)) (Some ''not-a-date''))) =
        (Exit 1, world0\<lparr>stderr := [''Invalid --start-iso value: not-a-date'']\<rparr>)"
proof -
  have s: "subcommand (plain (Split (Some (Finite 900)) (Some ''not-a-date'')))
      = Split (Some (Finite 900)) (Some ''not-a-date'')"
    by (simp add: plain_def)
  have n: "''not-a-date'' \<noteq> []" by simp
  have f: "fromisoformat demo_env ''not-a-date'' = None" by code_simp
  from invalid_start_iso[OF disjI1[OF s] n f] s n f show ?thesis by simp
qed

text \<open>
  The claim as the spec words it fails for \<^verbatim>\<open>scenario --init\<close>: \<^verbatim>\<open>_init_helpers\<close> runs
  before the start time is parsed, so its seven requests are issued before the error is
  reported.
\<close>

theorem scenario_init_bad_start_counterexample:
  "fromisoformat demo_env ''not-a-date'' = None
   \<and> length (requests (snd (run demo_env
        (plain (Scenario (Some (Finite 900)) None (Some ''not-a-date'') True))))) = 7
   \<and> fst (run demo_env (plain (Scenario (Some (Finite 900)) None (Some ''not-a-date'') True)))
        = Exit 1"
  by code_simp

section \<open>Missing configuration\<close>

text \<open>
  C7, as the code has it. The base URL and the token are looked up when the first request
  is built, not when the process starts. If one of them is absent (not given, or empty),
  no subcommand issues a request and the exit status is never 0. The process prints the
  missing value to standard error and exits with 2 whenever the run gets as far as its
  first request (and the base URL, when it is the token that is missing, starts with a
  scheme): always for \<^verbatim>\<open>init\<close>, \<^verbatim>\<open>energy\<close>, \<^verbatim>\<open>dump\<close> and \<^verbatim>\<open>scenario --init\<close>, and
  for the others unless an earlier step fails: the conversion of the status value, the
  parsing of \<^verbatim>\<open>--start-iso\<close>, the subtraction of the duration, or the conversion of the
  start time by \<^verbatim>\<open>timestamp\<close>.
\<close>

theorem missing_configuration:
  assumes "a = namespace e c" and "absent (base_url a) \<or> absent (token a)"
  shows "requests (snd (run e c)) = [] \<and> exit_code (fst (run e c)) \<noteq> 0
    \<and> (reaches_request e c \<and> scheme_ok e a \<longrightarrow>
         run e c = (Exit 2, world0\<lparr>stderr := [missing_message a]\<rparr>))"
proof -
  from assms have u: "unconfigured (namespace e c)"
    by (simp add: unconfigured_def absent_truthy)
  from unconfigured_run[OF u] have first: "requests (snd (run e c)) = []"
    and second: "exit_code (fst (run e c)) \<noteq> 0"
    by (cases "fst (run e c)"; simp)+
  have third: "run e c = (Exit 2, world0\<lparr>stderr := [missing_message a]\<rparr>)"
    if r: "reaches_request e c" "scheme_ok e a"
  proof -
    from r(1) obtain a0 where p: "parse_args e c = Inr a0"
      using reaches_parses by blast
    with assms(1) have a: "a = fill_energy_write_entity a0" by (simp add: namespace_Inr)
    from u assms(1) have "unconfigured a" by simp
    from exits2_func[OF p a this r(2,1)]
    have "func (subcommand c) e a world0 =
          (Inl (SystemExit 2), world0\<lparr>stderr := stderr world0 @ [missing_message a]\<rparr>)"
      by (simp add: exits2_def)
    with p a show ?thesis
      by (simp add: run_def main_def except_RuntimeError_def world0_def)
  qed
  from first second third show ?thesis by blast
qed

theorem missing_configuration_witness:
  "(let c = plain (Split (Some (Finite 900)) (Some ''2024-04-30T23:50:00''));
        a = namespace no_token_env c in
     base_url a = Some ''http://ha.local:8123/'' \<and> token a = None \<and> absent (token a)
     \<and> fromisoformat no_token_env ''2024-04-30T23:50:00'' =
           Some \<lparr>ordinal = 739006, hour = 23, minute = 50, second = 0, microsecond = 0,
                 utcoffset = None, fold = 0\<rparr>
     \<and> timestamp no_token_env
           \<lparr>ordinal = 739006, hour = 23, minute = 50, second = 0, microsecond = 0,
            utcoffset = None, fold = 0\<rparr> = Seconds 1714521000
     \<and> reaches_request no_token_env c \<and> scheme_ok no_token_env a
     \<and> requests (snd (run no_token_env c)) = []
     \<and> exit_code (fst (run no_token_env c)) \<noteq> 0
     \<and> run no_token_env c =
          (Exit 2,
           \<lparr>requests = [], stdout = [],
            stderr = [''Missing required value: HA_TOKEN or --token'']\<rparr>))"
proof -
  let ?c = "plain (Split (Some (Finite 900)) (Some ''2024-04-30T23:50:00''))"
  let ?a = "namespace no_token_env ?c"
  have b: "base_url ?a = Some ''http://ha.local:8123/''" by code_simp
  have t: "token ?a = None" "absent (token ?a)" by code_simp+
  have f: "fromisoformat no_token_env ''2024-04-30T23:50:00'' =
           Some \<lparr>ordinal = 739006, hour = 23, minute = 50, second = 0, microsecond = 0,
                 utcoffset = None, fold = 0\<rparr>"
    by code_simp
  have ts: "timestamp no_token_env
           \<lparr>ordinal = 739006, hour = 23, minute = 50, second = 0, microsecond = 0,
            utcoffset = None, fold = 0\<rparr> = Seconds 1714521000"
    by code_simp
  have r: "reaches_request no_token_env ?c"
    by code_simp
  have s: "scheme_ok no_token_env ?a" by (rule scheme_ok_no_token; code_simp)
  have m: "missing_message ?a = ''Missing required value: HA_TOKEN or --token''" by code_simp
  from missing_configuration[OF refl disjI2[OF t(2)]] b t f ts r s m
  show ?thesis unfolding Let_def by (simp add: world0_def)
qed

text \<open>
  The claim as the spec words it fails for \<^verbatim>\<open>split\<close> with an invalid \<^verbatim>\<open>--start-iso\<close>
  and no token: the start time is parsed before the first request is built, so the
  process reports the invalid value and exits with 1.
\<close>

theorem missing_token_bad_start_counterexample:
  "token (namespace no_token_env (plain (Split (Some (Finite 900)) (Some ''not-a-date'')))) = None
   \<and> run no_token_env (plain (Split (Some (Finite 900)) (Some ''not-a-date''))) =
        (Exit 1, world0\<lparr>stderr := [''Invalid --start-iso value: not-a-date'']\<rparr>)"
  by code_simp

end
